theory Spec2Isabelle
  imports Complex_Main
begin

section \<open>Values and errors\<close>

text \<open>
  The package \<^verbatim>\<open>pyRiskTable\<close> computes with NumPy floats.  In the model of the
  aggregator and of the engines floats are the reals and arithmetic is exact; the only
  non-finite float the engines create themselves is \<^verbatim>\<open>np.inf\<close>, the initial value of
  \<^verbatim>\<open>val\<close> and \<^verbatim>\<open>err\<close>, which is kept as a separate constructor.  The rounding of
  binary64 arithmetic is modelled separately, in the section on binary64 arithmetic, for the
  two computations of which the specification states an exact sum.
  A Python exception is a value of type \<open>error\<close>; a call that raises returns \<open>Inl\<close>.
\<close>

datatype error =
    AssertionError string
  | TypeError
  | ValueError
  | UnboundLocalError
  | UserError string

datatype xreal = Fin real | PInf

text \<open>What a caller-supplied function receives and returns: a float or a 1-D array.\<close>

datatype "value" = Scalar real | Array "real list"

type_synonym pyfun = "value \<Rightarrow> error + value"

type_synonym pyfun2 = "value \<Rightarrow> value \<Rightarrow> error + value"

text \<open>
  \<^verbatim>\<open>scipy.special.roots_legendre\<close> is not part of the package: the engines take it as a
  parameter, a function from the order to the nodes and weights (or to the exception it
  raises).
\<close>

type_synonym rule = "int \<Rightarrow> error + (real list \<times> real list)"

section \<open>risk.py: the consequence aggregator\<close>

text \<open>\<^verbatim>\<open>np.diff(a)\<close> on a 1-D array: \<open>out[j] = a[j+1] - a[j]\<close>.\<close>

definition np_diff :: "real list \<Rightarrow> real list" where
  "np_diff xs = map2 (\<lambda>nxt cur. nxt - cur) (tl xs) xs"

text \<open>\<^verbatim>\<open>np.diff(a, axis=0, append=v)\<close>: \<open>v\<close> is put after the last entry first.\<close>

definition np_diff_append :: "real list \<Rightarrow> real \<Rightarrow> real list" where
  "np_diff_append xs v = np_diff (xs @ [v])"

text \<open>\<^verbatim>\<open>u @ v\<close> for two 1-D operands; operands of different lengths raise.\<close>

definition matmul :: "real list \<Rightarrow> real list \<Rightarrow> error + real" where
  "matmul u v = (if length u = length v then Inr (sum_list (map2 (*) u v)) else Inl ValueError)"

text \<open>The per-state probabilities, \<^verbatim>\<open>prob_array\<close> of \<^verbatim>\<open>expected_consequence\<close>.\<close>

definition prob_array :: "real \<Rightarrow> (real \<Rightarrow> real) list \<Rightarrow> real list" where
  "prob_array im fragility_funcs =
     (let cdf_array = map (\<lambda>func. func im) fragility_funcs
      in map uminus (np_diff_append cdf_array 0))"

text \<open>
  \<^verbatim>\<open>expected_consequence(im, fragility_funcs=None, cq_array=None)\<close> at a scalar \<open>im\<close>.
  An omitted argument is \<open>None\<close>.  The first assertion guards \<open>fragility_funcs\<close> only;
  \<^verbatim>\<open>len(cq_array)\<close> in the second one raises \<^verbatim>\<open>TypeError\<close> when \<open>cq_array\<close> is \<open>None\<close>.
\<close>

definition expected_consequence ::
  "real \<Rightarrow> (real \<Rightarrow> real) list option \<Rightarrow> real list option \<Rightarrow> error + real" where
  "expected_consequence im fragility_funcs cq_array =
     (case fragility_funcs of
        None \<Rightarrow> Inl (AssertionError ''Must provide a list of fragility functions'')
      | Some funcs \<Rightarrow>
          (case cq_array of
             None \<Rightarrow> Inl TypeError
           | Some cq \<Rightarrow>
               if length funcs \<noteq> length cq
               then Inl (AssertionError ''fragility_funcs and cq_array must have the same length'')
               else matmul (prob_array im funcs) cq))"

text \<open>
  The specification's reading of the aggregator: the CDF of state \<open>j\<close> at \<open>im\<close>, taken as
  0 beyond the last state, and the consequence-weighted sum of the differences.
\<close>

definition spec_cdf :: "(real \<Rightarrow> real) list \<Rightarrow> real \<Rightarrow> nat \<Rightarrow> real" where
  "spec_cdf funcs im j = (if j < length funcs then (funcs ! j) im else 0)"

definition spec_expected_consequence :: "real \<Rightarrow> (real \<Rightarrow> real) list \<Rightarrow> real list \<Rightarrow> real" where
  "spec_expected_consequence im funcs cq =
     (\<Sum>j<length funcs. (spec_cdf funcs im j - spec_cdf funcs im (Suc j)) * cq ! j)"

section \<open>scenario.py: the NumPy operations the engines use\<close>

text \<open>Sequencing of calls that may raise: the first exception propagates.\<close>

definition and_then :: "error + 'a \<Rightarrow> ('a \<Rightarrow> error + 'b) \<Rightarrow> error + 'b" where
  "and_then r k = (case r of Inl e \<Rightarrow> Inl e | Inr v \<Rightarrow> k v)"

fun first_error :: "(error + 'a) list \<Rightarrow> error + 'a list" where
  "first_error [] = Inr []"
| "first_error (Inl e # rs) = Inl e"
| "first_error (Inr v # rs) = (case first_error rs of Inl e \<Rightarrow> Inl e | Inr vs \<Rightarrow> Inr (v # vs))"

fun scalars :: "value list \<Rightarrow> real list option" where
  "scalars [] = Some []"
| "scalars (Scalar y # vs) = map_option ((#) y) (scalars vs)"
| "scalars (Array ys # vs) = None"

text \<open>
  \<^verbatim>\<open>np.vectorize(f)\<close>: the function is called once per element, in order, with a float;
  the results are collected into an array, so each of them must be a float.  An input of
  size 0 raises.  The caller's functions return floats: the output type that NumPy infers
  from the first result (a Python \<open>int\<close> there makes an integer array, which truncates the
  later results) is not modelled.
\<close>

definition np_vectorize :: "pyfun \<Rightarrow> pyfun" where
  "np_vectorize f v =
     (case v of
        Scalar x \<Rightarrow>
          and_then (f (Scalar x))
            (\<lambda>y. case y of Scalar y' \<Rightarrow> Inr (Scalar y') | Array ys \<Rightarrow> Inl ValueError)
      | Array xs \<Rightarrow>
          if xs = [] then Inl ValueError
          else and_then (first_error (map (\<lambda>x. f (Scalar x)) xs))
            (\<lambda>vs. case scalars vs of None \<Rightarrow> Inl ValueError | Some ys \<Rightarrow> Inr (Array ys)))"

text \<open>\<^verbatim>\<open>u * v\<close> with NumPy broadcasting, for floats and 1-D arrays.\<close>

fun np_multiply :: "value \<Rightarrow> value \<Rightarrow> error + value" where
  "np_multiply (Scalar x) (Scalar y) = Inr (Scalar (x * y))"
| "np_multiply (Scalar x) (Array ys) = Inr (Array (map ((*) x) ys))"
| "np_multiply (Array xs) (Scalar y) = Inr (Array (map (\<lambda>x. x * y) xs))"
| "np_multiply (Array xs) (Array ys) =
     (if length xs = length ys then Inr (Array (map2 (*) xs ys))
      else if length xs = 1 then Inr (Array (map ((*) (hd xs)) ys))
      else if length ys = 1 then Inr (Array (map (\<lambda>x. x * hd ys) xs))
      else Inl ValueError)"

text \<open>
  \<^verbatim>\<open>np.sum(v, axis=-1)\<close>; for a 0-d operand NumPy accepts the axis \<open>-1\<close> and returns the
  operand.  The engines pass it 1-D arrays only.
\<close>

fun np_sum :: "value \<Rightarrow> error + real" where
  "np_sum (Array xs) = Inr (sum_list xs)"
| "np_sum (Scalar x) = Inr x"

text \<open>
  \<^verbatim>\<open>np.meshgrid(xs, ys)\<close> (indexing \<open>xy\<close>): two grids with one row per element of \<open>ys\<close>;
  \<^verbatim>\<open>ravel\<close> reads a grid row by row.
\<close>

definition meshgrid :: "real list \<Rightarrow> real list \<Rightarrow> real list list \<times> real list list" where
  "meshgrid xs ys = (replicate (length ys) xs, map (\<lambda>y. replicate (length xs) y) ys)"

definition ravel :: "real list list \<Rightarrow> real list" where
  "ravel g = concat g"

section \<open>scenario.py: the order-escalation loop\<close>

text \<open>\<^verbatim>\<open>abs(newval - val)\<close>, where \<open>val\<close> may still be \<^verbatim>\<open>np.inf\<close>, and \<^verbatim>\<open>err < t\<close>.\<close>

fun abs_diff :: "real \<Rightarrow> xreal \<Rightarrow> xreal" where
  "abs_diff newval (Fin v) = Fin \<bar>newval - v\<bar>"
| "abs_diff newval PInf = PInf"

fun xless :: "xreal \<Rightarrow> real \<Rightarrow> bool" where
  "xless (Fin e) t = (e < t)"
| "xless PInf t = False"

text \<open>The test of the \<^verbatim>\<open>break\<close>: \<^verbatim>\<open>err < tol or err < rtol*abs(val)\<close>, \<open>val\<close> being the new candidate.\<close>

definition stop_test :: "real \<Rightarrow> real \<Rightarrow> xreal \<Rightarrow> real \<Rightarrow> bool" where
  "stop_test tol rtol err newval = (xless err tol \<or> xless err (rtol * \<bar>newval\<bar>))"

text \<open>
  The local variables of an engine at the head of the loop: \<open>val\<close>, \<open>err\<close>, and the
  names assigned in the body (\<open>bound\<close>), which do not exist before the first iteration.
  \<open>tried\<close> records the orders for which the body was entered; it is not a variable of the
  program.
\<close>

record 's locals =
  val_l :: xreal
  err_l :: xreal
  bound :: "'s option"
  tried :: "int list"

datatype exit = Exhausted | Broke | Raised error

text \<open>
  \<^verbatim>\<open>for n in range(min_order, max_order+1): ... if ...: break\<close>.  Both engines have this
  loop, word for word but for the computation of \<open>newval\<close>, which is the parameter \<open>body\<close>:
  it returns the names it assigns and \<open>newval\<close>, or the exception raised.
\<close>

fun order_loop ::
  "(int \<Rightarrow> error + 's \<times> real) \<Rightarrow> real \<Rightarrow> real \<Rightarrow> int list \<Rightarrow> 's locals \<Rightarrow> 's locals \<times> exit" where
  "order_loop body tol rtol [] st = (st, Exhausted)"
| "order_loop body tol rtol (n # ns) st =
     (case body n of
        Inl e \<Rightarrow> (st\<lparr>tried := tried st @ [n]\<rparr>, Raised e)
      | Inr (s, newval) \<Rightarrow>
          let err = abs_diff newval (val_l st);
              st' = \<lparr>val_l = Fin newval, err_l = err, bound = Some s, tried = tried st @ [n]\<rparr>
          in if stop_test tol rtol err newval then (st', Broke)
             else order_loop body tol rtol ns st')"

datatype warning = AccuracyWarning int xreal

text \<open>
  What a call does: the value returned or the exception raised, the warnings emitted,
  and (not observable by the caller) the orders tried and whether the loop was left by
  \<^verbatim>\<open>break\<close>.
\<close>

record 'r outcome =
  returned :: "error + 'r"
  warned :: "warning list"
  orders_tried :: "int list"
  left_by_break :: bool

definition raises :: "error \<Rightarrow> 'r outcome" where
  "raises e = \<lparr>returned = Inl e, warned = [], orders_tried = [], left_by_break = False\<rparr>"

text \<open>
  From \<^verbatim>\<open>val = np.inf\<close> to the \<^verbatim>\<open>return\<close>: the loop, its \<^verbatim>\<open>else\<close> branch with the warning
  (message: \<open>max_order\<close> and \<open>err\<close>), and the return statement \<open>ret\<close>, which reads the names
  assigned in the body and raises \<^verbatim>\<open>UnboundLocalError\<close> when they were never assigned.
\<close>

definition escalate ::
  "(int \<Rightarrow> error + 's \<times> real) \<Rightarrow> ('s \<Rightarrow> xreal \<Rightarrow> xreal \<Rightarrow> 'r) \<Rightarrow> real \<Rightarrow> real \<Rightarrow> int \<Rightarrow> int \<Rightarrow> 'r outcome" where
  "escalate body ret tol rtol min_order max_order =
     (case order_loop body tol rtol [min_order..max_order]
             \<lparr>val_l = PInf, err_l = PInf, bound = None, tried = []\<rparr> of
        (st, Raised e) \<Rightarrow>
          \<lparr>returned = Inl e, warned = [], orders_tried = tried st, left_by_break = False\<rparr>
      | (st, how) \<Rightarrow>
          \<lparr>returned = (case bound st of
                         None \<Rightarrow> Inl UnboundLocalError
                       | Some s \<Rightarrow> Inr (ret s (val_l st) (err_l st))),
           warned = (if how = Exhausted \<and> max_order > min_order
                     then [AccuracyWarning max_order (err_l st)] else []),
           orders_tried = tried st,
           left_by_break = (how = Broke)\<rparr>)"

section \<open>scenario.py: generate_primary_event\<close>

text \<open>
  The adapter, the \<^verbatim>\<open>if vec_...: ... else: np.vectorize(...)\<close> at the head of an engine: a
  function flagged as taking arrays is used as it is, any other one goes through
  \<^verbatim>\<open>np.vectorize\<close>.
\<close>

definition adapter :: "bool \<Rightarrow> pyfun \<Rightarrow> pyfun" where
  "adapter vec func = (if vec then func else np_vectorize func)"

text \<open>The returned tuple \<open>(ims, scalers, likes, cqs, val, err)\<close>.\<close>

record primary_event =
  ims :: "real list"
  scalers :: "real list"
  likes :: "value"
  cqs :: "value"
  val :: xreal
  err :: xreal

text \<open>The body of the loop up to \<open>newval\<close>, at order \<open>n\<close>.\<close>

definition primary_body ::
  "rule \<Rightarrow> real \<Rightarrow> real \<Rightarrow> pyfun \<Rightarrow> pyfun \<Rightarrow> int
     \<Rightarrow> error + (real list \<times> real list \<times> value \<times> value) \<times> real" where
  "primary_body roots_legendre a b likelihood_vfunc consequence_vfunc n =
     and_then (roots_legendre n) (\<lambda>(x, w).
       let ims = map (\<lambda>xi. (b - a) * (xi + 1) / 2 + a) x;
           scalers = map (\<lambda>wi. (b - a) / 2 * wi) w
       in and_then (likelihood_vfunc (Array ims)) (\<lambda>likes.
          and_then (consequence_vfunc (Array ims)) (\<lambda>cqs.
          and_then (np_multiply (Array scalers) likes) (\<lambda>sl.
          and_then (np_multiply sl cqs) (\<lambda>slc.
          and_then (np_sum slc) (\<lambda>newval.
            Inr ((ims, scalers, likes, cqs), newval)))))))"

definition primary_return ::
  "real list \<times> real list \<times> value \<times> value \<Rightarrow> xreal \<Rightarrow> xreal \<Rightarrow> primary_event" where
  "primary_return s v e =
     (case s of (ims', scalers', likes', cqs') \<Rightarrow>
        \<lparr>ims = ims', scalers = scalers', likes = likes', cqs = cqs', val = v, err = e\<rparr>)"

text \<open>
  \<^verbatim>\<open>generate_primary_event(a, b, likelihood_func=None, kw_likelihood={}, vec_likelihood=False,
  consequence_func=None, kw_consequence={}, vec_consequence=False, tol, rtol, min_order, max_order)\<close>.
  A function argument stands for the caller's function with its keyword arguments already
  applied; \<open>None\<close> is an omitted function.
\<close>

definition generate_primary_event ::
  "rule \<Rightarrow> real \<Rightarrow> real \<Rightarrow> pyfun option \<Rightarrow> bool \<Rightarrow> pyfun option \<Rightarrow> bool
     \<Rightarrow> real \<Rightarrow> real \<Rightarrow> int \<Rightarrow> int \<Rightarrow> primary_event outcome" where
  "generate_primary_event roots_legendre a b likelihood_func vec_likelihood
       consequence_func vec_consequence tol rtol min_order max_order =
     (case likelihood_func of
        None \<Rightarrow> raises (AssertionError ''Must provide likelihood_func'')
      | Some lf \<Rightarrow>
          (case consequence_func of
             None \<Rightarrow> raises (AssertionError ''Must provide consequence_func'')
           | Some cf \<Rightarrow>
               let likelihood_vfunc = adapter vec_likelihood lf;
                   consequence_vfunc = adapter vec_consequence cf
               in escalate (primary_body roots_legendre a b likelihood_vfunc consequence_vfunc)
                    primary_return tol rtol min_order max_order))"

section \<open>scenario.py: generate_secondary_event\<close>

text \<open>The returned tuple \<open>(im, scaler, likes, cqs, val, err)\<close>.\<close>

record secondary_event =
  im_s :: "(real \<times> real) list"
  scaler_s :: "(real \<times> real) list"
  likes_s :: "value"
  cqs_s :: "value"
  val_s :: xreal
  err_s :: xreal

text \<open>
  The body of the loop at order \<open>n\<close>.  The functions called are \<open>consequence_func\<close> and
  \<open>likelihood_func\<close> themselves, on the raveled grids: the source builds
  \<open>likelihood_vfunc\<close> and \<open>consequence_vfunc\<close> before the loop and does not use them.
  The names assigned are \<open>im1, im2, w1, w2, likes, cqs\<close>.
\<close>

definition secondary_body ::
  "rule \<Rightarrow> real \<Rightarrow> real \<Rightarrow> real \<Rightarrow> real \<Rightarrow> pyfun2 \<Rightarrow> pyfun \<Rightarrow> int
     \<Rightarrow> error + (real list \<times> real list \<times> real list \<times> real list \<times> value \<times> value) \<times> real" where
  "secondary_body roots_legendre a b c d likelihood_func consequence_func n =
     and_then (roots_legendre n) (\<lambda>(pts1, pts1_w).
       let pts2 = pts1; pts2_w = pts1_w;
           g = meshgrid (map (\<lambda>p. (b - a) * (p + 1) / 2 + a) pts1)
                        (map (\<lambda>p. (d - c) * (p + 1) / 2 + c) pts2);
           im1 = ravel (fst g); im2 = ravel (snd g);
           h = meshgrid (map (\<lambda>wi. (b - a) / 2 * wi) pts1_w)
                        (map (\<lambda>wi. (d - c) / 2 * wi) pts2_w);
           w1 = ravel (fst h); w2 = ravel (snd h)
       in and_then (consequence_func (Array im2)) (\<lambda>cqs.
          and_then (likelihood_func (Array im1) (Array im2)) (\<lambda>likes.
          and_then (np_multiply (Array w1) (Array w2)) (\<lambda>ww.
          and_then (np_multiply ww likes) (\<lambda>wwl.
          and_then (np_multiply wwl cqs) (\<lambda>wwlc.
          and_then (np_sum wwlc) (\<lambda>newval.
            Inr ((im1, im2, w1, w2, likes, cqs), newval))))))))"

text \<open>The return: \<^verbatim>\<open>np.vstack([im1, im2]).T\<close> is the list of the pairs.\<close>

definition secondary_return ::
  "real list \<times> real list \<times> real list \<times> real list \<times> value \<times> value \<Rightarrow> xreal \<Rightarrow> xreal
     \<Rightarrow> secondary_event" where
  "secondary_return s v e =
     (case s of (im1, im2, w1, w2, likes', cqs') \<Rightarrow>
        \<lparr>im_s = zip im1 im2, scaler_s = zip w1 w2, likes_s = likes', cqs_s = cqs', val_s = v, err_s = e\<rparr>)"

definition generate_secondary_event ::
  "rule \<Rightarrow> real \<Rightarrow> real \<Rightarrow> real \<Rightarrow> real \<Rightarrow> pyfun2 option \<Rightarrow> bool \<Rightarrow> pyfun option \<Rightarrow> bool
     \<Rightarrow> real \<Rightarrow> real \<Rightarrow> int \<Rightarrow> int \<Rightarrow> secondary_event outcome" where
  "generate_secondary_event roots_legendre a b c d likelihood_func vec_likelihood
       consequence_func vec_consequence tol rtol min_order max_order =
     (case likelihood_func of
        None \<Rightarrow> raises (AssertionError ''Must provide likelihood_func'')
      | Some lf \<Rightarrow>
          (case consequence_func of
             None \<Rightarrow> raises (AssertionError ''Must provide consequence_func'')
           | Some cf \<Rightarrow>
               escalate (secondary_body roots_legendre a b c d lf cf)
                 secondary_return tol rtol min_order max_order))"

section \<open>The loop, as the specification describes it\<close>

text \<open>
  For a loop body \<open>body\<close>: the candidate risk computed at order \<open>n\<close> and the names
  assigned there; the previous candidate at order \<open>j\<close> of a loop that starts at order \<open>n\<close>
  with \<open>val = v0\<close>; the error \<open>|candidate - previous|\<close>; and whether the stopping rule
  accepts order \<open>j\<close>.
\<close>

definition candidate :: "(int \<Rightarrow> error + 's \<times> real) \<Rightarrow> int \<Rightarrow> real" where
  "candidate body n = (case body n of Inl e \<Rightarrow> 0 | Inr (s, c) \<Rightarrow> c)"

definition assigned :: "(int \<Rightarrow> error + 's \<times> real) \<Rightarrow> int \<Rightarrow> 's option" where
  "assigned body n = (case body n of Inl e \<Rightarrow> None | Inr (s, c) \<Rightarrow> Some s)"

definition prev_val :: "(int \<Rightarrow> error + 's \<times> real) \<Rightarrow> xreal \<Rightarrow> int \<Rightarrow> int \<Rightarrow> xreal" where
  "prev_val body v0 n j = (if j = n then v0 else Fin (candidate body (j - 1)))"

definition err_at :: "(int \<Rightarrow> error + 's \<times> real) \<Rightarrow> xreal \<Rightarrow> int \<Rightarrow> int \<Rightarrow> xreal" where
  "err_at body v0 n j = abs_diff (candidate body j) (prev_val body v0 n j)"

definition accepts :: "(int \<Rightarrow> error + 's \<times> real) \<Rightarrow> real \<Rightarrow> real \<Rightarrow> xreal \<Rightarrow> int \<Rightarrow> int \<Rightarrow> bool" where
  "accepts body tol rtol v0 n j = stop_test tol rtol (err_at body v0 n j) (candidate body j)"

definition state_at :: "(int \<Rightarrow> error + 's \<times> real) \<Rightarrow> xreal \<Rightarrow> int list \<Rightarrow> int \<Rightarrow> int \<Rightarrow> 's locals" where
  "state_at body v0 tr n k =
     \<lparr>val_l = Fin (candidate body k), err_l = err_at body v0 n k,
      bound = assigned body k, tried = tr @ [n..k]\<rparr>"

definition loop_exit ::
  "(int \<Rightarrow> error + 's \<times> real) \<Rightarrow> real \<Rightarrow> real \<Rightarrow> xreal \<Rightarrow> int list \<Rightarrow> int \<Rightarrow> int \<Rightarrow> int
     \<Rightarrow> 's locals \<Rightarrow> exit \<Rightarrow> bool" where
  "loop_exit body tol rtol v0 tr n mx k st' how =
     (case how of
        Raised e \<Rightarrow> body k = Inl e \<and> tried st' = tr @ [n..k]
      | Broke \<Rightarrow> assigned body k \<noteq> None \<and> accepts body tol rtol v0 n k
                 \<and> st' = state_at body v0 tr n k
      | Exhausted \<Rightarrow> assigned body k \<noteq> None \<and> \<not> accepts body tol rtol v0 n k
                 \<and> st' = state_at body v0 tr n k \<and> k = mx)"

definition passes :: "(int \<Rightarrow> error + 's \<times> real) \<Rightarrow> real \<Rightarrow> real \<Rightarrow> xreal \<Rightarrow> int \<Rightarrow> int \<Rightarrow> bool" where
  "passes body tol rtol v0 n k =
     (\<forall>j. n \<le> j \<and> j < k \<longrightarrow> assigned body j \<noteq> None \<and> \<not> accepts body tol rtol v0 n j)"

text \<open>
  The order \<open>k\<close> at which a call leaves the loop: the first order of the range where the
  body raises or the stopping rule accepts, or else \<open>max_order\<close>; and what the call does
  when it leaves the loop there.
\<close>

definition outcome_at ::
  "(int \<Rightarrow> error + 's \<times> real) \<Rightarrow> ('s \<Rightarrow> xreal \<Rightarrow> xreal \<Rightarrow> 'r) \<Rightarrow> real \<Rightarrow> real \<Rightarrow> int \<Rightarrow> int \<Rightarrow> int
     \<Rightarrow> 'r outcome" where
  "outcome_at body ret tol rtol min_order max_order k =
     (case body k of
        Inl e \<Rightarrow>
          \<lparr>returned = Inl e, warned = [], orders_tried = [min_order..k], left_by_break = False\<rparr>
      | Inr (s, c) \<Rightarrow>
          \<lparr>returned = Inr (ret s (Fin c) (err_at body PInf min_order k)),
           warned = (if \<not> accepts body tol rtol PInf min_order k \<and> max_order > min_order
                     then [AccuracyWarning max_order (err_at body PInf min_order k)] else []),
           orders_tried = [min_order..k],
           left_by_break = accepts body tol rtol PInf min_order k\<rparr>)"

definition stops_at ::
  "(int \<Rightarrow> error + 's \<times> real) \<Rightarrow> real \<Rightarrow> real \<Rightarrow> int \<Rightarrow> int \<Rightarrow> int \<Rightarrow> bool" where
  "stops_at body tol rtol min_order max_order k =
     (min_order \<le> k \<and> k \<le> max_order \<and> passes body tol rtol PInf min_order k
      \<and> (assigned body k = None \<or> accepts body tol rtol PInf min_order k \<or> k = max_order))"

text \<open>
  The value a sampled likelihood or consequence has at sample point \<open>i\<close>, a float standing
  for every point; and whether \<open>v\<close> is a float or holds one value per sample point.
\<close>

definition sample :: "value \<Rightarrow> nat \<Rightarrow> real" where
  "sample v i = (case v of Scalar x \<Rightarrow> x | Array xs \<Rightarrow> xs ! i)"

definition one_per_point :: "nat \<Rightarrow> value \<Rightarrow> bool" where
  "one_per_point n v = (case v of Scalar x \<Rightarrow> True | Array xs \<Rightarrow> length xs = n)"

section \<open>Binary64 arithmetic\<close>

text \<open>
  A Python float and a NumPy \<^verbatim>\<open>float64\<close> are IEEE 754 binary64 numbers, and every
  arithmetic operation returns the exact result rounded to the nearest of them, a tie going
  to the neighbour with an even significand.  \<open>fl64 x\<close> is that rounding of the real
  \<open>x\<close>: the significand has 53 bits, \<open>ulp64 x\<close> is the spacing of the binary64 numbers in
  the binade of \<open>x\<close>.  The exponent range is not bounded: overflow and underflow are not
  modelled (a difference of two binary64 numbers never underflows).
\<close>

definition round_even :: "real \<Rightarrow> int" where
  "round_even y =
     (let f = \<lfloor>y\<rfloor>; r = y - of_int f
      in if r < 1 / 2 then f else if 1 / 2 < r then f + 1 else if even f then f else f + 1)"

definition ulp64 :: "real \<Rightarrow> real" where
  "ulp64 x = 2 powr (of_int \<lfloor>log 2 \<bar>x\<bar>\<rfloor> - 52)"

definition fl64 :: "real \<Rightarrow> real" where
  "fl64 x = (if x = 0 then 0 else of_int (round_even (x / ulp64 x)) * ulp64 x)"








section \<open>Concrete inputs\<close>

text \<open>
  The first three Gauss-Legendre rules on \<open>[-1, 1]\<close>, as \<^verbatim>\<open>roots_legendre\<close> tabulates them;
  it raises \<^verbatim>\<open>ValueError\<close> for an order below 1.  Orders above 3 are not tabulated here and
  the closed examples below never reach them.
\<close>

definition gauss_legendre_table :: rule where
  "gauss_legendre_table n =
     (if n = 1 then Inr ([0], [2])
      else if n = 2 then Inr ([- (1 / sqrt 3), 1 / sqrt 3], [1, 1])
      else if n = 3 then Inr ([- sqrt (3 / 5), 0, sqrt (3 / 5)], [5 / 9, 8 / 9, 5 / 9])
      else Inl ValueError)"

text \<open>
  Caller functions: \<^verbatim>\<open>lambda im: 1.0\<close>, \<^verbatim>\<open>lambda im: im\<close>,
  \<^verbatim>\<open>lambda im: 1.0 if im > 0.5 else 0.0\<close> (written for a float: the truth value of an
  array with more than one element raises \<^verbatim>\<open>ValueError\<close>) and \<^verbatim>\<open>lambda im1, im2: 1.0\<close>.
\<close>

definition const_one :: pyfun where
  "const_one v = Inr (Scalar 1)"

definition identity_fn :: pyfun where
  "identity_fn v = Inr v"

definition step_fn :: pyfun where
  "step_fn v =
     (case v of
        Scalar x \<Rightarrow> Inr (Scalar (if x > 1 / 2 then 1 else 0))
      | Array xs \<Rightarrow>
          (case xs of
             [x] \<Rightarrow> Inr (Scalar (if x > 1 / 2 then 1 else 0))
           | _ \<Rightarrow> Inl ValueError))"

definition const_one2 :: pyfun2 where
  "const_one2 u v = Inr (Scalar 1)"

text \<open>\<^verbatim>\<open>lambda im: im * im\<close>, which NumPy applies to an array element by element.\<close>

definition square_fn :: pyfun where
  "square_fn v =
     (case v of Scalar x \<Rightarrow> Inr (Scalar (x * x)) | Array xs \<Rightarrow> Inr (Array (map (\<lambda>x. x * x) xs)))"

text \<open>
  \<^verbatim>\<open>lambda im: math.sqrt(im - 2.0)\<close>: \<^verbatim>\<open>math.sqrt\<close> raises \<^verbatim>\<open>ValueError\<close> below 0, and
  \<^verbatim>\<open>TypeError\<close> on an array of several elements.
\<close>

definition sqrt_shifted :: pyfun where
  "sqrt_shifted v =
     (case v of
        Scalar x \<Rightarrow> if x < 2 then Inl ValueError else Inr (Scalar (sqrt (x - 2)))
      | Array xs \<Rightarrow> Inl TypeError)"



section \<open>Properties of the aggregator\<close>

lemma length_np_diff_append: "length (np_diff_append xs v) = length xs"
  by (simp add: np_diff_append_def np_diff_def)

lemma nth_np_diff_append:
  "j < length xs \<Longrightarrow> np_diff_append xs v ! j = (xs @ [v]) ! Suc j - (xs @ [v]) ! j"
  by (simp add: np_diff_append_def np_diff_def nth_tl)

lemma length_prob_array: "length (prob_array im funcs) = length funcs"
  by (simp add: prob_array_def length_np_diff_append)

lemma nth_prob_array:
  assumes "j < length funcs"
  shows "prob_array im funcs ! j = spec_cdf funcs im j - spec_cdf funcs im (Suc j)"
proof -
  let ?cdf = "map (\<lambda>func. func im) funcs"
  have "prob_array im funcs ! j = - (np_diff_append ?cdf 0 ! j)"
    using assms by (simp add: prob_array_def length_np_diff_append)
  also have "\<dots> = (?cdf @ [0]) ! j - (?cdf @ [0]) ! Suc j"
    using assms by (simp add: nth_np_diff_append)
  also have "(?cdf @ [0]) ! j = spec_cdf funcs im j"
    using assms by (simp add: spec_cdf_def nth_append)
  also have "(?cdf @ [0]) ! Suc j = spec_cdf funcs im (Suc j)"
    using assms by (cases "Suc j < length funcs") (auto simp: spec_cdf_def nth_append)
  finally show ?thesis .
qed

lemma sum_list_map2_nth:
  fixes u v :: "real list"
  assumes "length u = length v"
  shows "sum_list (map2 (*) u v) = (\<Sum>j<length u. u ! j * v ! j)"
proof -
  have "sum_list (map2 (*) u v) = (\<Sum>j = 0..<length (map2 (*) u v). map2 (*) u v ! j)"
    by (rule sum_list_sum_nth)
  also have "\<dots> = (\<Sum>j = 0..<length u. u ! j * v ! j)"
    using assms by (intro sum.cong) auto
  finally show ?thesis by (simp add: atLeast0LessThan)
qed

text \<open>
  C1.  At a scalar IM, for a non-empty list of fragility functions and a consequence array
  of the same length, \<open>expected_consequence\<close> returns the sum over the damage states \<open>j\<close>
  of \<open>(CDF[j] - CDF[j+1]) * cq_array[j]\<close>, the CDF beyond the last state being 0.
\<close>

theorem expected_consequence_weighted_sum:
  assumes "funcs \<noteq> []" and "length funcs = length cq"
  shows "expected_consequence im (Some funcs) (Some cq) = Inr (spec_expected_consequence im funcs cq)"
proof -
  have "sum_list (map2 (*) (prob_array im funcs) cq)
        = (\<Sum>j<length funcs. prob_array im funcs ! j * cq ! j)"
    using assms(2) sum_list_map2_nth [of "prob_array im funcs" cq]
    by (simp add: length_prob_array)
  also have "\<dots> = spec_expected_consequence im funcs cq"
    unfolding spec_expected_consequence_def
    by (intro sum.cong) (simp_all add: nth_prob_array)
  finally show ?thesis
    using assms(2) by (simp add: expected_consequence_def matmul_def length_prob_array)
qed

theorem expected_consequence_weighted_sum_witness:
  "[\<lambda>x. x, \<lambda>x. x / 2] \<noteq> [] \<and> length [\<lambda>x::real. x, \<lambda>x. x / 2] = length [10, 20 :: real]
   \<and> expected_consequence (1 / 2) (Some [\<lambda>x. x, \<lambda>x. x / 2]) (Some [10, 20]) = Inr (15 / 2)"
  using expected_consequence_weighted_sum [of "[\<lambda>x. x, \<lambda>x. x / 2]" "[10, 20]" "1 / 2"]
  by (simp add: spec_expected_consequence_def spec_cdf_def lessThan_Suc numeral_2_eq_2)

text \<open>
  C5.  With the fragility functions supplied and \<open>cq_array\<close> omitted, the call does not fail
  with the missing-argument assertion: \<^verbatim>\<open>len(None)\<close> raises \<^verbatim>\<open>TypeError\<close>.
\<close>

theorem expected_consequence_cq_array_omitted:
  "expected_consequence (1 / 2) (Some [\<lambda>x. x]) None = Inl TypeError
   \<and> (\<forall>msg. expected_consequence (1 / 2) (Some [\<lambda>x. x]) None \<noteq> Inl (AssertionError msg))"
  by (simp add: expected_consequence_def)

text \<open>The parts of the error contract that the code keeps.\<close>

lemma expected_consequence_length_mismatch:
  "length funcs \<noteq> length cq \<Longrightarrow>
   expected_consequence im (Some funcs) (Some cq)
     = Inl (AssertionError ''fragility_funcs and cq_array must have the same length'')"
  by (simp add: expected_consequence_def)

lemma expected_consequence_funcs_omitted:
  "expected_consequence im None cq_array
     = Inl (AssertionError ''Must provide a list of fragility functions'')"
  by (simp add: expected_consequence_def)

lemma expected_consequence_returns_iff:
  "(\<exists>r. expected_consequence im fragility_funcs cq_array = Inr r)
   \<longleftrightarrow> (\<exists>funcs cq. fragility_funcs = Some funcs \<and> cq_array = Some cq \<and> length funcs = length cq)"
  by (auto simp: expected_consequence_def matmul_def length_prob_array split: option.splits)



section \<open>Properties of the loop\<close>

lemma prev_val_shift:
  "n < j \<Longrightarrow> prev_val body (Fin (candidate body n)) (n + 1) j = prev_val body v0 n j"
  by (auto simp: prev_val_def)

lemma accepts_shift:
  "n < j \<Longrightarrow> accepts body tol rtol (Fin (candidate body n)) (n + 1) j = accepts body tol rtol v0 n j"
  using prev_val_shift [of n j body v0] by (simp add: accepts_def err_at_def)

lemma state_at_shift:
  assumes "n < k"
  shows "state_at body (Fin (candidate body n)) (tr @ [n]) (n + 1) k = state_at body v0 tr n k"
proof -
  have "[n..k] = n # [n + 1..k]" using assms by (simp add: upto_rec1)
  then show ?thesis
    using assms prev_val_shift [of n k body v0] by (simp add: state_at_def err_at_def)
qed

lemma loop_exit_shift:
  assumes "n < k"
  shows "loop_exit body tol rtol (Fin (candidate body n)) (tr @ [n]) (n + 1) mx k st' how
         = loop_exit body tol rtol v0 tr n mx k st' how"
proof -
  have "[n..k] = n # [n + 1..k]" using assms by (simp add: upto_rec1)
  then show ?thesis
    using assms accepts_shift [of n k body tol rtol v0] state_at_shift [of n k body tr v0]
    by (cases how) (simp_all add: loop_exit_def)
qed

lemma passes_step:
  assumes "n < k" "assigned body n \<noteq> None" "\<not> accepts body tol rtol v0 n n"
    "passes body tol rtol (Fin (candidate body n)) (n + 1) k"
  shows "passes body tol rtol v0 n k"
  unfolding passes_def
proof (intro allI impI)
  fix j assume j: "n \<le> j \<and> j < k"
  show "assigned body j \<noteq> None \<and> \<not> accepts body tol rtol v0 n j"
  proof (cases "j = n")
    case True
    then show ?thesis using assms by simp
  next
    case False
    with j have "n + 1 \<le> j \<and> j < k" "n < j" by auto
    with assms(4) accepts_shift [of n j body tol rtol v0] show ?thesis
      by (auto simp: passes_def)
  qed
qed

lemma order_loop_step_first:
  assumes "body n = Inr (s, c)"
  shows "candidate body n = c \<and> assigned body n = Some s
    \<and> accepts body tol rtol v0 n n = stop_test tol rtol (abs_diff c v0) c
    \<and> state_at body v0 tr n n
        = \<lparr>val_l = Fin c, err_l = abs_diff c v0, bound = Some s, tried = tr @ [n]\<rparr>"
  using assms
  by (simp add: candidate_def assigned_def accepts_def err_at_def prev_val_def state_at_def)

lemma order_loop_upto:
  assumes "n \<le> mx" and "order_loop body tol rtol [n..mx] st = (st', how)"
    and "val_l st = v0" and "tried st = tr"
  shows "\<exists>k. n \<le> k \<and> k \<le> mx \<and> passes body tol rtol v0 n k
            \<and> loop_exit body tol rtol v0 tr n mx k st' how"
  using assms
proof (induction "nat (mx - n)" arbitrary: n st v0 tr)
  case 0
  then have mx: "mx = n" by simp
  have up: "[n..mx] = [n]" using mx by (simp add: upto_rec1 [of n n])
  have ps: "passes body tol rtol v0 n n" by (auto simp: passes_def)
  show ?case
  proof (cases "body n")
    case (Inl e)
    with 0 up have "loop_exit body tol rtol v0 tr n mx n st' how"
      by (auto simp: loop_exit_def)
    with ps mx show ?thesis by (intro exI [of _ n]) simp
  next
    case (Inr p)
    obtain s c where p: "body n = Inr (s, c)" using Inr by (cases p) simp
    note f = order_loop_step_first [of body n s c tol rtol v0 tr, OF p]
    from 0 up p f have "loop_exit body tol rtol v0 tr n mx n st' how"
      by (auto simp: loop_exit_def Let_def mx split: if_splits)
    with ps mx show ?thesis by (intro exI [of _ n]) simp
  qed
next
  case (Suc m)
  then have lt: "n < mx" by simp
  then have up: "[n..mx] = n # [n + 1..mx]" by (simp add: upto_rec1)
  have ps: "passes body tol rtol v0 n n" by (auto simp: passes_def)
  show ?case
  proof (cases "body n")
    case (Inl e)
    with Suc.prems up have "loop_exit body tol rtol v0 tr n mx n st' how"
      by (auto simp: loop_exit_def)
    with ps lt show ?thesis by (intro exI [of _ n]) simp
  next
    case (Inr p)
    obtain s c where p: "body n = Inr (s, c)" using Inr by (cases p) simp
    note f = order_loop_step_first [of body n s c tol rtol v0 tr, OF p]
    let ?st1 = "\<lparr>val_l = Fin c, err_l = abs_diff c (val_l st), bound = Some s, tried = tried st @ [n]\<rparr>"
    show ?thesis
    proof (cases "stop_test tol rtol (abs_diff c v0) c")
      case True
      with Suc.prems up p f have "loop_exit body tol rtol v0 tr n mx n st' how"
        by (auto simp: loop_exit_def Let_def)
      with ps lt show ?thesis by (intro exI [of _ n]) simp
    next
      case False
      with Suc.prems up p
      have run: "order_loop body tol rtol [n + 1..mx] ?st1 = (st', how)" by (simp add: Let_def)
      have m: "m = nat (mx - (n + 1))" using Suc.hyps(2) by simp
      have le: "n + 1 \<le> mx" using lt by simp
      have v: "val_l ?st1 = Fin (candidate body n)" using f by simp
      have t: "tried ?st1 = tr @ [n]" using Suc.prems by simp
      from Suc.hyps(1) [OF m le run v t]
      obtain k where k: "n + 1 \<le> k" "k \<le> mx"
        and before: "passes body tol rtol (Fin (candidate body n)) (n + 1) k"
        and at: "loop_exit body tol rtol (Fin (candidate body n)) (tr @ [n]) (n + 1) mx k st' how"
        by blast
      have nk: "n < k" using k by simp
      have "passes body tol rtol v0 n k"
        using passes_step [OF nk _ _ before] f False by simp
      moreover have "loop_exit body tol rtol v0 tr n mx k st' how"
        using at loop_exit_shift [OF nk, of body tol rtol tr mx st' how v0] by simp
      ultimately show ?thesis using k by (intro exI [of _ k]) simp
    qed
  qed
qed

section \<open>Properties of the engines\<close>

lemma escalate_empty:
  assumes "mx < mn"
  shows "escalate body ret tol rtol mn mx
         = \<lparr>returned = Inl UnboundLocalError, warned = [], orders_tried = [], left_by_break = False\<rparr>"
  using assms by (simp add: escalate_def)


lemma assigned_SomeE:
  assumes "assigned body k \<noteq> None"
  obtains s where "body k = Inr (s, candidate body k)" "assigned body k = Some s"
  using assms by (cases "body k") (auto simp: assigned_def candidate_def)

lemma escalate_upto:
  fixes body :: "int \<Rightarrow> error + 's \<times> real"
  assumes "mn \<le> mx"
  shows "\<exists>k. stops_at body tol rtol mn mx k
            \<and> escalate body ret tol rtol mn mx = outcome_at body ret tol rtol mn mx k"
proof -
  let ?init = "\<lparr>val_l = PInf, err_l = PInf, bound = None, tried = []\<rparr> :: 's locals"
  obtain st' how where run: "order_loop body tol rtol [mn..mx] ?init = (st', how)"
    by (cases "order_loop body tol rtol [mn..mx] ?init")
  from order_loop_upto [OF assms run, of PInf "[]"]
  obtain k where k: "mn \<le> k" "k \<le> mx" and ps: "passes body tol rtol PInf mn k"
    and ex: "loop_exit body tol rtol PInf [] mn mx k st' how"
    by auto
  show ?thesis
  proof (cases how)
    case (Raised e)
    with ex have b: "body k = Inl e" and t: "tried st' = [mn..k]"
      by (simp_all add: loop_exit_def)
    have "stops_at body tol rtol mn mx k"
      using k ps b by (simp add: stops_at_def assigned_def)
    moreover have "escalate body ret tol rtol mn mx = outcome_at body ret tol rtol mn mx k"
      using run Raised b t by (simp add: escalate_def outcome_at_def)
    ultimately show ?thesis by blast
  next
    case Broke
    with ex have a: "assigned body k \<noteq> None" and acc: "accepts body tol rtol PInf mn k"
      and st: "st' = state_at body PInf [] mn k"
      by (simp_all add: loop_exit_def)
    from a obtain s where b: "body k = Inr (s, candidate body k)" and as: "assigned body k = Some s"
      by (rule assigned_SomeE)
    have "stops_at body tol rtol mn mx k"
      using k ps acc by (simp add: stops_at_def)
    moreover have "escalate body ret tol rtol mn mx = outcome_at body ret tol rtol mn mx k"
      using run Broke b as acc by (simp add: escalate_def outcome_at_def st state_at_def)
    ultimately show ?thesis by blast
  next
    case Exhausted
    with ex have a: "assigned body k \<noteq> None" and acc: "\<not> accepts body tol rtol PInf mn k"
      and st: "st' = state_at body PInf [] mn k" and kmx: "k = mx"
      by (auto simp: loop_exit_def)
    from a obtain s where b: "body k = Inr (s, candidate body k)" and as: "assigned body k = Some s"
      by (rule assigned_SomeE)
    have "stops_at body tol rtol mn mx k"
      using k ps kmx by (simp add: stops_at_def)
    moreover have "escalate body ret tol rtol mn mx = outcome_at body ret tol rtol mn mx k"
      using run Exhausted b as acc by (simp add: escalate_def outcome_at_def st state_at_def kmx)
    ultimately show ?thesis by blast
  qed
qed

lemma generate_primary_event_escalate:
  "generate_primary_event rl a b (Some lf) vl (Some cf) vc tol rtol mn mx
   = escalate (primary_body rl a b (adapter vl lf) (adapter vc cf)) primary_return tol rtol mn mx"
  by (simp add: generate_primary_event_def)

lemma generate_secondary_event_escalate:
  "generate_secondary_event rl a b c d (Some lf) vl (Some cf) vc tol rtol mn mx
   = escalate (secondary_body rl a b c d lf cf) secondary_return tol rtol mn mx"
  by (simp add: generate_secondary_event_def)

lemma first_order_not_accepted: "\<not> accepts body tol rtol PInf mn mn"
  by (simp add: accepts_def err_at_def prev_val_def stop_test_def)

lemma err_at_unfold:
  "err_at body PInf mn k = (if k = mn then PInf else Fin \<bar>candidate body k - candidate body (k - 1)\<bar>)"
  by (simp add: err_at_def prev_val_def)

lemma order_loop_tried:
  "order_loop body tol rtol ns st = (st', how)
   \<Longrightarrow> \<exists>m\<le>length ns. tried st' = tried st @ take m ns"
proof (induction ns arbitrary: st)
  case Nil
  then show ?case by simp
next
  case (Cons n ns)
  show ?case
  proof (cases "body n")
    case (Inl e)
    with Cons.prems have "tried st' = tried st @ take 1 (n # ns)" by auto
    then show ?thesis by (intro exI [of _ 1]) simp
  next
    case (Inr p)
    obtain s c where p: "p = (s, c)" by (cases p)
    let ?st1 = "\<lparr>val_l = Fin c, err_l = abs_diff c (val_l st), bound = Some s, tried = tried st @ [n]\<rparr>"
    show ?thesis
    proof (cases "stop_test tol rtol (abs_diff c (val_l st)) c")
      case True
      with Cons.prems Inr p have "tried st' = tried st @ take 1 (n # ns)" by (auto simp: Let_def)
      then show ?thesis by (intro exI [of _ 1]) simp
    next
      case False
      with Cons.prems Inr p have "order_loop body tol rtol ns ?st1 = (st', how)"
        by (simp add: Let_def)
      from Cons.IH [OF this] obtain m where "m \<le> length ns" "tried st' = tried ?st1 @ take m ns"
        by blast
      then have "Suc m \<le> length (n # ns)" "tried st' = tried st @ take (Suc m) (n # ns)"
        by simp_all
      then show ?thesis by blast
    qed
  qed
qed

lemma escalate_orders_tried:
  fixes body :: "int \<Rightarrow> error + 's \<times> real"
  shows "\<exists>m\<le>nat (mx - mn + 1). orders_tried (escalate body ret tol rtol mn mx) = take m [mn..mx]"
proof -
  let ?init = "\<lparr>val_l = PInf, err_l = PInf, bound = None, tried = []\<rparr> :: 's locals"
  obtain st' how where run: "order_loop body tol rtol [mn..mx] ?init = (st', how)"
    by (cases "order_loop body tol rtol [mn..mx] ?init")
  from order_loop_tried [OF run] obtain m where "m \<le> length [mn..mx]" "tried st' = take m [mn..mx]"
    by auto
  moreover have "orders_tried (escalate body ret tol rtol mn mx) = tried st'"
    using run by (cases how) (simp_all add: escalate_def)
  ultimately show ?thesis by auto
qed

lemma raises_orders_tried: "orders_tried (raises e) = []"
  by (simp add: raises_def)

lemmas eval_defs = generate_primary_event_def generate_secondary_event_def escalate_def
  primary_body_def secondary_body_def primary_return_def secondary_return_def adapter_def
  np_vectorize_def and_then_def stop_test_def raises_def meshgrid_def ravel_def
  gauss_legendre_table_def const_one_def identity_fn_def step_fn_def const_one2_def square_fn_def
  Let_def upto_rec1

lemma primary_return_sel [simp]:
  "val (primary_return s v e) = v" "err (primary_return s v e) = e"
  by (simp_all add: primary_return_def split: prod.splits)

lemma secondary_return_sel [simp]:
  "val_s (secondary_return s v e) = v" "err_s (secondary_return s v e) = e"
  by (simp_all add: secondary_return_def split: prod.splits)

lemma escalate_exhausted:
  fixes body :: "int \<Rightarrow> error + 's \<times> real"
  assumes "mn \<le> mx"
    and "\<forall>n. mn \<le> n \<and> n \<le> mx \<longrightarrow> assigned body n \<noteq> None \<and> \<not> accepts body tol rtol PInf mn n"
  shows "\<exists>s. body mx = Inr (s, candidate body mx)
           \<and> escalate body ret tol rtol mn mx =
               \<lparr>returned = Inr (ret s (Fin (candidate body mx)) (err_at body PInf mn mx)),
                warned = (if mx > mn then [AccuracyWarning mx (err_at body PInf mn mx)] else []),
                orders_tried = [mn..mx], left_by_break = False\<rparr>"
proof -
  from escalate_upto [OF assms(1), of body tol rtol ret]
  obtain k where st: "stops_at body tol rtol mn mx k"
    and out: "escalate body ret tol rtol mn mx = outcome_at body ret tol rtol mn mx k"
    by blast
  from st have k: "mn \<le> k" "k \<le> mx" by (simp_all add: stops_at_def)
  with assms(2) have a: "assigned body k \<noteq> None" and na: "\<not> accepts body tol rtol PInf mn k"
    by simp_all
  with st have kmx: "k = mx" by (simp add: stops_at_def)
  from a obtain s where b: "body k = Inr (s, candidate body k)"
    by (rule assigned_SomeE)
  show ?thesis
    using out b na kmx by (intro exI [of _ s]) (simp add: outcome_at_def)
qed

lemma int_1_2: "(1::int) \<le> n \<and> n \<le> 2 \<Longrightarrow> n = 1 \<or> n = 2"
  by arith


lemma escalate_returns_or_propagates:
  fixes body :: "int \<Rightarrow> error + 's \<times> real"
  assumes "mn \<le> mx"
  shows "(\<exists>r. returned (escalate body ret tol rtol mn mx) = Inr r)
         \<or> (\<exists>k e. mn \<le> k \<and> k \<le> mx \<and> body k = Inl e
                \<and> returned (escalate body ret tol rtol mn mx) = Inl e)"
proof -
  from escalate_upto [OF assms, of body tol rtol ret]
  obtain k where st: "stops_at body tol rtol mn mx k"
    and out: "escalate body ret tol rtol mn mx = outcome_at body ret tol rtol mn mx k"
    by blast
  from st have k: "mn \<le> k" "k \<le> mx" by (simp_all add: stops_at_def)
  show ?thesis
  proof (cases "body k")
    case (Inl e)
    with out have "returned (escalate body ret tol rtol mn mx) = Inl e"
      by (simp add: outcome_at_def)
    with k Inl show ?thesis by blast
  next
    case (Inr p)
    with out show ?thesis by (cases p) (simp add: outcome_at_def)
  qed
qed

lemma escalate_returns:
  fixes body :: "int \<Rightarrow> error + 's \<times> real"
  assumes "mn \<le> mx" and "\<forall>k. mn \<le> k \<and> k \<le> mx \<longrightarrow> assigned body k \<noteq> None"
  shows "\<exists>r. returned (escalate body ret tol rtol mn mx) = Inr r"
proof -
  from escalate_returns_or_propagates [OF assms(1), of body ret tol rtol]
  show ?thesis
  proof
    assume "\<exists>k e. mn \<le> k \<and> k \<le> mx \<and> body k = Inl e
                \<and> returned (escalate body ret tol rtol mn mx) = Inl e"
    then obtain k e where "mn \<le> k" "k \<le> mx" "body k = Inl e" by blast
    with assms(2) show ?thesis by (auto simp: assigned_def)
  qed
qed

lemma and_then_InrE:
  assumes "and_then r k = Inr y"
  obtains v where "r = Inr v" "k v = Inr y"
  using assms by (cases r) (simp_all add: and_then_def)

lemma primary_body_InrE:
  assumes "primary_body rl a b lv cv n = Inr ((ims', scalers', likes', cqs'), cand)"
  obtains x w sl slc where "rl n = Inr (x, w)"
    "ims' = map (\<lambda>xi. (b - a) * (xi + 1) / 2 + a) x"
    "scalers' = map (\<lambda>wi. (b - a) / 2 * wi) w"
    "lv (Array ims') = Inr likes'" "cv (Array ims') = Inr cqs'"
    "np_multiply (Array scalers') likes' = Inr sl" "np_multiply sl cqs' = Inr slc"
    "np_sum slc = Inr cand"
proof -
  from assms obtain p where p: "rl n = Inr p" 
    and rest: "(case p of (x, w) \<Rightarrow>
       let ims = map (\<lambda>xi. (b - a) * (xi + 1) / 2 + a) x;
           scalers = map (\<lambda>wi. (b - a) / 2 * wi) w
       in and_then (lv (Array ims)) (\<lambda>likes.
          and_then (cv (Array ims)) (\<lambda>cqs.
          and_then (np_multiply (Array scalers) likes) (\<lambda>sl.
          and_then (np_multiply sl cqs) (\<lambda>slc.
          and_then (np_sum slc) (\<lambda>newval.
            Inr ((ims, scalers, likes, cqs), newval))))))) = Inr ((ims', scalers', likes', cqs'), cand)"
    unfolding primary_body_def by (rule and_then_InrE)
  obtain x w where xw: "p = (x, w)" by (cases p)
  let ?ims = "map (\<lambda>xi. (b - a) * (xi + 1) / 2 + a) x"
  let ?sc = "map (\<lambda>wi. (b - a) / 2 * wi) w"
  from rest xw obtain likes0 where l: "lv (Array ?ims) = Inr likes0"
    and r1: "and_then (cv (Array ?ims)) (\<lambda>cqs.
          and_then (np_multiply (Array ?sc) likes0) (\<lambda>sl.
          and_then (np_multiply sl cqs) (\<lambda>slc.
          and_then (np_sum slc) (\<lambda>newval.
            Inr ((?ims, ?sc, likes0, cqs), newval))))) = Inr ((ims', scalers', likes', cqs'), cand)"
    by (auto simp: Let_def elim: and_then_InrE)
  from r1 obtain cqs0 where c: "cv (Array ?ims) = Inr cqs0"
    and r2: "and_then (np_multiply (Array ?sc) likes0) (\<lambda>sl.
          and_then (np_multiply sl cqs0) (\<lambda>slc.
          and_then (np_sum slc) (\<lambda>newval.
            Inr ((?ims, ?sc, likes0, cqs0), newval)))) = Inr ((ims', scalers', likes', cqs'), cand)"
    by (rule and_then_InrE)
  from r2 obtain sl where m1: "np_multiply (Array ?sc) likes0 = Inr sl"
    and r3: "and_then (np_multiply sl cqs0) (\<lambda>slc.
          and_then (np_sum slc) (\<lambda>newval.
            Inr ((?ims, ?sc, likes0, cqs0), newval))) = Inr ((ims', scalers', likes', cqs'), cand)"
    by (rule and_then_InrE)
  from r3 obtain slc where m2: "np_multiply sl cqs0 = Inr slc"
    and r4: "and_then (np_sum slc) (\<lambda>newval.
            Inr ((?ims, ?sc, likes0, cqs0), newval)) = Inr ((ims', scalers', likes', cqs'), cand)"
    by (rule and_then_InrE)
  from r4 obtain nv where s: "np_sum slc = Inr nv"
    and r5: "Inr ((?ims, ?sc, likes0, cqs0), nv) = (Inr ((ims', scalers', likes', cqs'), cand) :: error + _)"
    by (rule and_then_InrE)
  from r5 have eqs: "ims' = ?ims" "scalers' = ?sc" "likes' = likes0" "cqs' = cqs0" "cand = nv"
    by simp_all
  show thesis
    using that [of x w sl slc] p xw l c m1 m2 s eqs by simp
qed

lemma sum_list_map2_mult3:
  fixes u v w :: "real list"
  assumes "length v = length u" "length w = length u"
  shows "sum_list (map2 (*) (map2 (*) u v) w) = (\<Sum>i<length u. u ! i * v ! i * w ! i)"
proof -
  have "sum_list (map2 (*) (map2 (*) u v) w) = (\<Sum>i<length (map2 (*) u v). map2 (*) u v ! i * w ! i)"
    using assms by (intro sum_list_map2_nth) simp
  also have "\<dots> = (\<Sum>i<length u. u ! i * v ! i * w ! i)"
    using assms by (intro sum.cong) auto
  finally show ?thesis .
qed

lemma primary_body_candidate:
  assumes "primary_body rl a b lv cv n = Inr ((ims', scalers', Array ls, Array cs), cand)"
    and "length ls = length scalers'" and "length cs = length scalers'"
  shows "cand = (\<Sum>i<length scalers'. scalers' ! i * ls ! i * cs ! i)"
proof -
  from assms(1) obtain sl slc where m1: "np_multiply (Array scalers') (Array ls) = Inr sl"
    and m2: "np_multiply sl (Array cs) = Inr slc" and s: "np_sum slc = Inr cand"
    by (rule primary_body_InrE)
  from m1 assms(2) have sl: "sl = Array (map2 (*) scalers' ls)" by simp
  from m2 sl assms have slc: "slc = Array (map2 (*) (map2 (*) scalers' ls) cs)" by simp
  from s slc have "cand = sum_list (map2 (*) (map2 (*) scalers' ls) cs)" by simp
  then show ?thesis using assms by (simp add: sum_list_map2_mult3)
qed





lemma gauss_legendre_table_weights:
  "\<forall>n x w. gauss_legendre_table n = Inr (x, w) \<longrightarrow> sum_list w = 2"
  by (auto simp: gauss_legendre_table_def split: if_splits)

text \<open>
  What the adapter does with a function written for floats: a successful call on an array
  has applied the function to every element, one result per element.
\<close>

lemma first_error_Inr:
  "first_error rs = Inr vs \<Longrightarrow> rs = map Inr vs"
proof (induction rs arbitrary: vs)
  case Nil
  then show ?case by simp
next
  case (Cons r rs)
  then show ?case by (cases r) (auto split: sum.splits)
qed

lemma scalars_Some:
  "scalars vs = Some ys \<Longrightarrow> vs = map Scalar ys"
proof (induction vs arbitrary: ys)
  case Nil
  then show ?case by simp
next
  case (Cons v vs)
  then show ?case by (cases v) auto
qed

lemma np_vectorize_Array:
  assumes "np_vectorize f (Array xs) = Inr v"
  shows "\<exists>ys. v = Array ys \<and> length ys = length xs
           \<and> (\<forall>i<length xs. f (Scalar (xs ! i)) = Inr (Scalar (ys ! i)))"
proof -
  from assms have ne: "xs \<noteq> []" by (auto simp: np_vectorize_def)
  with assms obtain vs where fe: "first_error (map (\<lambda>x. f (Scalar x)) xs) = Inr vs"
    and sc: "(case scalars vs of None \<Rightarrow> Inl ValueError | Some ys \<Rightarrow> Inr (Array ys)) = Inr v"
    by (auto simp: np_vectorize_def elim: and_then_InrE)
  from sc obtain ys where ys: "scalars vs = Some ys" and v: "v = Array ys"
    by (auto split: option.splits)
  from first_error_Inr [OF fe] scalars_Some [OF ys]
  have eq: "map (\<lambda>x. f (Scalar x)) xs = map (\<lambda>y. Inr (Scalar y)) ys" by simp
  then have len: "length ys = length xs" by (metis length_map)
  have "f (Scalar (xs ! i)) = Inr (Scalar (ys ! i))" if "i < length xs" for i
  proof -
    have "map (\<lambda>x. f (Scalar x)) xs ! i = map (\<lambda>y. Inr (Scalar y)) ys ! i" by (simp only: eq)
    with that len show ?thesis by simp
  qed
  with v len show ?thesis by blast
qed


lemma accepts_explicit:
  "accepts body tol rtol PInf mn n
   = (n \<noteq> mn \<and> (\<bar>candidate body n - candidate body (n - 1)\<bar> < tol
               \<or> \<bar>candidate body n - candidate body (n - 1)\<bar> < rtol * \<bar>candidate body n\<bar>))"
  by (simp add: accepts_def err_at_def prev_val_def stop_test_def)

lemma np_multiply_fits:
  assumes "np_multiply (Array s) l = Inr sl" and "one_per_point (length s) l"
  shows "\<exists>zs. sl = Array zs \<and> length zs = length s \<and> (\<forall>i<length s. zs ! i = s ! i * sample l i)"
proof (cases l)
  case (Scalar y)
  with assms show ?thesis by (auto simp: sample_def)
next
  case (Array ls)
  with assms show ?thesis by (auto simp: sample_def one_per_point_def)
qed

lemma weighted_sum:
  assumes m1: "np_multiply (Array s) l = Inr sl" and m2: "np_multiply sl c = Inr slc"
    and sm: "np_sum slc = Inr cand"
    and fl: "one_per_point (length s) l" and fc: "one_per_point (length s) c"
  shows "cand = (\<Sum>i<length s. s ! i * sample l i * sample c i)"
proof -
  from np_multiply_fits [OF m1 fl] obtain zs where sl: "sl = Array zs" and lz: "length zs = length s"
    and zs: "\<forall>i<length s. zs ! i = s ! i * sample l i" by blast
  from m2 sl fc lz have m2': "np_multiply (Array zs) c = Inr slc" and fc': "one_per_point (length zs) c"
    by simp_all
  from np_multiply_fits [OF m2' fc'] obtain ys where slc: "slc = Array ys" and ly: "length ys = length zs"
    and ys: "\<forall>i<length zs. ys ! i = zs ! i * sample c i" by blast
  from sm slc have "cand = sum_list ys" by simp
  also have "\<dots> = (\<Sum>i = 0..<length ys. ys ! i)" by (rule sum_list_sum_nth)
  also have "\<dots> = (\<Sum>i<length s. s ! i * sample l i * sample c i)"
    unfolding atLeast0LessThan using ly lz ys zs by (intro sum.cong) auto
  finally show ?thesis .
qed

lemma length_ravel_meshgrid:
  "length (ravel (fst (meshgrid u v))) = length v * length u"
  "length (ravel (snd (meshgrid u v))) = length v * length u"
  by (simp_all add: meshgrid_def ravel_def length_concat sum_list_replicate comp_def
        sum_list_triv)

lemma secondary_body_fullE:
  assumes "secondary_body rl a b c d lfj cf n = Inr ((im1, im2, w1, w2, likes', cqs'), cand)"
  obtains pts1 pts1_w ww wwl wwlc where "rl n = Inr (pts1, pts1_w)"
    "im1 = ravel (fst (meshgrid (map (\<lambda>p. (b - a) * (p + 1) / 2 + a) pts1)
                               (map (\<lambda>p. (d - c) * (p + 1) / 2 + c) pts1)))"
    "im2 = ravel (snd (meshgrid (map (\<lambda>p. (b - a) * (p + 1) / 2 + a) pts1)
                               (map (\<lambda>p. (d - c) * (p + 1) / 2 + c) pts1)))"
    "w1 = ravel (fst (meshgrid (map (\<lambda>wi. (b - a) / 2 * wi) pts1_w)
                               (map (\<lambda>wi. (d - c) / 2 * wi) pts1_w)))"
    "w2 = ravel (snd (meshgrid (map (\<lambda>wi. (b - a) / 2 * wi) pts1_w)
                               (map (\<lambda>wi. (d - c) / 2 * wi) pts1_w)))"
    "cf (Array im2) = Inr cqs'" "lfj (Array im1) (Array im2) = Inr likes'"
    "np_multiply (Array w1) (Array w2) = Inr ww" "np_multiply ww likes' = Inr wwl"
    "np_multiply wwl cqs' = Inr wwlc" "np_sum wwlc = Inr cand"
proof -
  from assms obtain p where p: "rl n = Inr p"
    and rest: "(case p of (pts1, pts1_w) \<Rightarrow>
       let pts2 = pts1; pts2_w = pts1_w;
           g = meshgrid (map (\<lambda>p. (b - a) * (p + 1) / 2 + a) pts1)
                        (map (\<lambda>p. (d - c) * (p + 1) / 2 + c) pts2);
           im1 = ravel (fst g); im2 = ravel (snd g);
           h = meshgrid (map (\<lambda>wi. (b - a) / 2 * wi) pts1_w)
                        (map (\<lambda>wi. (d - c) / 2 * wi) pts2_w);
           w1 = ravel (fst h); w2 = ravel (snd h)
       in and_then (cf (Array im2)) (\<lambda>cqs.
          and_then (lfj (Array im1) (Array im2)) (\<lambda>likes.
          and_then (np_multiply (Array w1) (Array w2)) (\<lambda>ww.
          and_then (np_multiply ww likes) (\<lambda>wwl.
          and_then (np_multiply wwl cqs) (\<lambda>wwlc.
          and_then (np_sum wwlc) (\<lambda>newval.
            Inr ((im1, im2, w1, w2, likes, cqs), newval)))))))) = Inr ((im1, im2, w1, w2, likes', cqs'), cand)"
    unfolding secondary_body_def by (rule and_then_InrE)
  obtain pts1 pts1_w where xw: "p = (pts1, pts1_w)" by (cases p)
  let ?g = "meshgrid (map (\<lambda>p. (b - a) * (p + 1) / 2 + a) pts1)
                     (map (\<lambda>p. (d - c) * (p + 1) / 2 + c) pts1)"
  let ?h = "meshgrid (map (\<lambda>wi. (b - a) / 2 * wi) pts1_w)
                     (map (\<lambda>wi. (d - c) / 2 * wi) pts1_w)"
  let ?i1 = "ravel (fst ?g)" and ?i2 = "ravel (snd ?g)"
  let ?v1 = "ravel (fst ?h)" and ?v2 = "ravel (snd ?h)"
  from rest xw have r0: "and_then (cf (Array ?i2)) (\<lambda>cqs.
          and_then (lfj (Array ?i1) (Array ?i2)) (\<lambda>likes.
          and_then (np_multiply (Array ?v1) (Array ?v2)) (\<lambda>ww.
          and_then (np_multiply ww likes) (\<lambda>wwl.
          and_then (np_multiply wwl cqs) (\<lambda>wwlc.
          and_then (np_sum wwlc) (\<lambda>newval.
            Inr ((?i1, ?i2, ?v1, ?v2, likes, cqs), newval)))))))
        = Inr ((im1, im2, w1, w2, likes', cqs'), cand)"
    by (simp add: Let_def)
  from r0 obtain cqs0 where c: "cf (Array ?i2) = Inr cqs0"
    and r1: "and_then (lfj (Array ?i1) (Array ?i2)) (\<lambda>likes.
          and_then (np_multiply (Array ?v1) (Array ?v2)) (\<lambda>ww.
          and_then (np_multiply ww likes) (\<lambda>wwl.
          and_then (np_multiply wwl cqs0) (\<lambda>wwlc.
          and_then (np_sum wwlc) (\<lambda>newval.
            Inr ((?i1, ?i2, ?v1, ?v2, likes, cqs0), newval))))))
        = Inr ((im1, im2, w1, w2, likes', cqs'), cand)"
    by (rule and_then_InrE)
  from r1 obtain likes0 where l: "lfj (Array ?i1) (Array ?i2) = Inr likes0"
    and r2: "and_then (np_multiply (Array ?v1) (Array ?v2)) (\<lambda>ww.
          and_then (np_multiply ww likes0) (\<lambda>wwl.
          and_then (np_multiply wwl cqs0) (\<lambda>wwlc.
          and_then (np_sum wwlc) (\<lambda>newval.
            Inr ((?i1, ?i2, ?v1, ?v2, likes0, cqs0), newval)))))
        = Inr ((im1, im2, w1, w2, likes', cqs'), cand)"
    by (rule and_then_InrE)
  from r2 obtain ww where m1: "np_multiply (Array ?v1) (Array ?v2) = Inr ww"
    and r3: "and_then (np_multiply ww likes0) (\<lambda>wwl.
          and_then (np_multiply wwl cqs0) (\<lambda>wwlc.
          and_then (np_sum wwlc) (\<lambda>newval.
            Inr ((?i1, ?i2, ?v1, ?v2, likes0, cqs0), newval))))
        = Inr ((im1, im2, w1, w2, likes', cqs'), cand)"
    by (rule and_then_InrE)
  from r3 obtain wwl where m2: "np_multiply ww likes0 = Inr wwl"
    and r4: "and_then (np_multiply wwl cqs0) (\<lambda>wwlc.
          and_then (np_sum wwlc) (\<lambda>newval.
            Inr ((?i1, ?i2, ?v1, ?v2, likes0, cqs0), newval)))
        = Inr ((im1, im2, w1, w2, likes', cqs'), cand)"
    by (rule and_then_InrE)
  from r4 obtain wwlc where m3: "np_multiply wwl cqs0 = Inr wwlc"
    and r5: "and_then (np_sum wwlc) (\<lambda>newval.
            Inr ((?i1, ?i2, ?v1, ?v2, likes0, cqs0), newval))
        = Inr ((im1, im2, w1, w2, likes', cqs'), cand)"
    by (rule and_then_InrE)
  from r5 obtain nv where s: "np_sum wwlc = Inr nv"
    and r6: "Inr ((?i1, ?i2, ?v1, ?v2, likes0, cqs0), nv)
             = (Inr ((im1, im2, w1, w2, likes', cqs'), cand) :: error + _)"
    by (rule and_then_InrE)
  from r6 have eqs: "im1 = ?i1" "im2 = ?i2" "w1 = ?v1" "w2 = ?v2" "likes' = likes0"
    "cqs' = cqs0" "cand = nv"
    by simp_all
  show thesis
    using that [of pts1 pts1_w ww wwl wwlc] p xw c l m1 m2 m3 s eqs by simp
qed

lemma grid_weighted_sum:
  assumes m1: "np_multiply (Array w1) (Array w2) = Inr ww" and len: "length w2 = length w1"
    and m2: "np_multiply ww l = Inr wwl" and m3: "np_multiply wwl c = Inr wwlc"
    and sm: "np_sum wwlc = Inr cand"
    and fl: "one_per_point (length w1) l" and fc: "one_per_point (length w1) c"
  shows "cand = (\<Sum>i<length w1. w1 ! i * w2 ! i * sample l i * sample c i)"
proof -
  from m1 len have ww: "ww = Array (map2 (*) w1 w2)" by simp
  have lz: "length (map2 (*) w1 w2) = length w1" using len by simp
  from m2 ww have m2': "np_multiply (Array (map2 (*) w1 w2)) l = Inr wwl" by simp
  from weighted_sum [OF m2' m3 sm] fl fc lz
  have "cand = (\<Sum>i<length (map2 (*) w1 w2). map2 (*) w1 w2 ! i * sample l i * sample c i)"
    by simp
  also have "\<dots> = (\<Sum>i<length w1. w1 ! i * w2 ! i * sample l i * sample c i)"
    unfolding lz using len by (intro sum.cong) auto
  finally show ?thesis .
qed

lemma never_accepts:
  assumes "\<forall>n. mn \<le> n \<and> n \<le> mx \<longrightarrow> assigned body n \<noteq> None"
    and "\<forall>n. mn < n \<and> n \<le> mx \<longrightarrow>
           \<not> (\<bar>candidate body n - candidate body (n - 1)\<bar> < tol
              \<or> \<bar>candidate body n - candidate body (n - 1)\<bar> < rtol * \<bar>candidate body n\<bar>)"
  shows "\<forall>n. mn \<le> n \<and> n \<le> mx \<longrightarrow>
           assigned body n \<noteq> None \<and> \<not> accepts body tol rtol PInf mn n"
proof (intro allI impI)
  fix n assume n: "mn \<le> n \<and> n \<le> mx"
  show "assigned body n \<noteq> None \<and> \<not> accepts body tol rtol PInf mn n"
  proof (cases "n = mn")
    case True
    with assms(1) n show ?thesis by (simp add: accepts_explicit)
  next
    case False
    with n have "mn < n \<and> n \<le> mx" by simp
    with assms n False show ?thesis by (simp add: accepts_explicit)
  qed
qed

lemma primary_exhausted:
  fixes rl :: rule and a b :: real and lf cf :: pyfun and vl vc :: bool
  defines "B \<equiv> primary_body rl a b (adapter vl lf) (adapter vc cf)"
  assumes le: "min_order \<le> max_order"
    and ev: "\<forall>n. min_order \<le> n \<and> n \<le> max_order \<longrightarrow> assigned B n \<noteq> None"
    and no: "\<forall>n. min_order < n \<and> n \<le> max_order \<longrightarrow>
               \<not> (\<bar>candidate B n - candidate B (n - 1)\<bar> < tol
                  \<or> \<bar>candidate B n - candidate B (n - 1)\<bar> < rtol * \<bar>candidate B n\<bar>)"
  shows "\<exists>r x w.
           generate_primary_event rl a b (Some lf) vl (Some cf) vc tol rtol min_order max_order
             = \<lparr>returned = Inr r,
                warned = (if max_order > min_order then [AccuracyWarning max_order (err r)] else []),
                orders_tried = [min_order..max_order], left_by_break = False\<rparr>
           \<and> rl max_order = Inr (x, w)
           \<and> ims r = map (\<lambda>xi. (b - a) * (xi + 1) / 2 + a) x
           \<and> scalers r = map (\<lambda>wi. (b - a) / 2 * wi) w
           \<and> adapter vl lf (Array (ims r)) = Inr (likes r)
           \<and> adapter vc cf (Array (ims r)) = Inr (cqs r)
           \<and> B max_order = Inr ((ims r, scalers r, likes r, cqs r), candidate B max_order)
           \<and> val r = Fin (candidate B max_order)
           \<and> err r = (if max_order = min_order then PInf
                      else Fin \<bar>candidate B max_order - candidate B (max_order - 1)\<bar>)
           \<and> (one_per_point (length (scalers r)) (likes r)
                \<and> one_per_point (length (scalers r)) (cqs r)
              \<longrightarrow> val r = Fin (\<Sum>i<length (scalers r).
                                  scalers r ! i * sample (likes r) i * sample (cqs r) i))"
proof -
  let ?c = "candidate B max_order"
  let ?e = "err_at B PInf min_order max_order"
  from escalate_exhausted [OF le never_accepts [OF ev no], of primary_return]
  obtain s where b: "B max_order = Inr (s, ?c)"
    and out: "escalate B primary_return tol rtol min_order max_order =
      \<lparr>returned = Inr (primary_return s (Fin ?c) ?e),
       warned = (if max_order > min_order then [AccuracyWarning max_order ?e] else []),
       orders_tried = [min_order..max_order], left_by_break = False\<rparr>"
    by blast
  obtain ims' scalers' likes' cqs' where s: "s = (ims', scalers', likes', cqs')" by (cases s)
  from b s have b': "primary_body rl a b (adapter vl lf) (adapter vc cf) max_order
      = Inr ((ims', scalers', likes', cqs'), ?c)"
    by (simp add: B_def)
  from b' obtain x w sl slc where rl: "rl max_order = Inr (x, w)"
    and i: "ims' = map (\<lambda>xi. (b - a) * (xi + 1) / 2 + a) x"
    and w: "scalers' = map (\<lambda>wi. (b - a) / 2 * wi) w"
    and l: "adapter vl lf (Array ims') = Inr likes'" and c: "adapter vc cf (Array ims') = Inr cqs'"
    and m1: "np_multiply (Array scalers') likes' = Inr sl" and m2: "np_multiply sl cqs' = Inr slc"
    and sm: "np_sum slc = Inr ?c"
    by (rule primary_body_InrE)
  let ?r = "primary_return s (Fin ?c) ?e"
  have sel: "ims ?r = ims'" "scalers ?r = scalers'" "likes ?r = likes'" "cqs ?r = cqs'"
    "val ?r = Fin ?c" "err ?r = ?e"
    using s by (simp_all add: primary_return_def)
  have G: "generate_primary_event rl a b (Some lf) vl (Some cf) vc tol rtol min_order max_order
           = escalate B primary_return tol rtol min_order max_order"
    by (simp add: generate_primary_event_escalate B_def)
  have f: "one_per_point (length scalers') likes' \<and> one_per_point (length scalers') cqs'
           \<longrightarrow> ?c = (\<Sum>i<length scalers'. scalers' ! i * sample likes' i * sample cqs' i)"
    using weighted_sum [OF m1 m2 sm] by blast
  show ?thesis
  proof (rule exI [of _ ?r], rule exI [of _ x], rule exI [of _ w], intro conjI)
    show "rl max_order = Inr (x, w)" by (rule rl)
    show "ims ?r = map (\<lambda>xi. (b - a) * (xi + 1) / 2 + a) x" unfolding sel by (rule i)
    show "scalers ?r = map (\<lambda>wi. (b - a) / 2 * wi) w" unfolding sel by (rule w)
    show "adapter vl lf (Array (ims ?r)) = Inr (likes ?r)" unfolding sel by (rule l)
    show "adapter vc cf (Array (ims ?r)) = Inr (cqs ?r)" unfolding sel by (rule c)
    show "val ?r = Fin ?c" by (rule sel)
    show "generate_primary_event rl a b (Some lf) vl (Some cf) vc tol rtol min_order max_order
             = \<lparr>returned = Inr ?r,
                warned = (if max_order > min_order then [AccuracyWarning max_order (err ?r)] else []),
                orders_tried = [min_order..max_order], left_by_break = False\<rparr>"
      unfolding G out sel ..
    show "B max_order = Inr ((ims ?r, scalers ?r, likes ?r, cqs ?r), ?c)"
      unfolding sel using b s by simp
    show "err ?r = (if max_order = min_order then PInf
                      else Fin \<bar>?c - candidate B (max_order - 1)\<bar>)"
      unfolding sel by (rule err_at_unfold)
    show "one_per_point (length (scalers ?r)) (likes ?r)
                \<and> one_per_point (length (scalers ?r)) (cqs ?r)
              \<longrightarrow> val ?r = Fin (\<Sum>i<length (scalers ?r).
                                  scalers ?r ! i * sample (likes ?r) i * sample (cqs ?r) i)"
      unfolding sel using f by simp
  qed
qed

lemma secondary_exhausted:
  fixes rl :: rule and a b c d :: real and lfj :: pyfun2 and cf :: pyfun
  defines "B \<equiv> secondary_body rl a b c d lfj cf"
  assumes le: "min_order \<le> max_order"
    and ev: "\<forall>n. min_order \<le> n \<and> n \<le> max_order \<longrightarrow> assigned B n \<noteq> None"
    and no: "\<forall>n. min_order < n \<and> n \<le> max_order \<longrightarrow>
               \<not> (\<bar>candidate B n - candidate B (n - 1)\<bar> < tol
                  \<or> \<bar>candidate B n - candidate B (n - 1)\<bar> < rtol * \<bar>candidate B n\<bar>)"
  shows "\<exists>r pts1 pts1_w im1 im2 w1 w2.
           generate_secondary_event rl a b c d (Some lfj) vl (Some cf) vc tol rtol min_order max_order
             = \<lparr>returned = Inr r,
                warned = (if max_order > min_order then [AccuracyWarning max_order (err_s r)] else []),
                orders_tried = [min_order..max_order], left_by_break = False\<rparr>
           \<and> rl max_order = Inr (pts1, pts1_w)
           \<and> im1 = ravel (fst (meshgrid (map (\<lambda>p. (b - a) * (p + 1) / 2 + a) pts1)
                                        (map (\<lambda>p. (d - c) * (p + 1) / 2 + c) pts1)))
           \<and> im2 = ravel (snd (meshgrid (map (\<lambda>p. (b - a) * (p + 1) / 2 + a) pts1)
                                        (map (\<lambda>p. (d - c) * (p + 1) / 2 + c) pts1)))
           \<and> w1 = ravel (fst (meshgrid (map (\<lambda>wi. (b - a) / 2 * wi) pts1_w)
                                       (map (\<lambda>wi. (d - c) / 2 * wi) pts1_w)))
           \<and> w2 = ravel (snd (meshgrid (map (\<lambda>wi. (b - a) / 2 * wi) pts1_w)
                                       (map (\<lambda>wi. (d - c) / 2 * wi) pts1_w)))
           \<and> im_s r = zip im1 im2
           \<and> scaler_s r = zip w1 w2
           \<and> cf (Array im2) = Inr (cqs_s r)
           \<and> lfj (Array im1) (Array im2) = Inr (likes_s r)
           \<and> B max_order = Inr ((im1, im2, w1, w2, likes_s r, cqs_s r), candidate B max_order)
           \<and> val_s r = Fin (candidate B max_order)
           \<and> err_s r = (if max_order = min_order then PInf
                        else Fin \<bar>candidate B max_order - candidate B (max_order - 1)\<bar>)
           \<and> (one_per_point (length w1) (likes_s r) \<and> one_per_point (length w1) (cqs_s r)
              \<longrightarrow> val_s r = Fin (\<Sum>i<length w1.
                                    w1 ! i * w2 ! i * sample (likes_s r) i * sample (cqs_s r) i))"
proof -
  let ?c = "candidate B max_order"
  let ?e = "err_at B PInf min_order max_order"
  from escalate_exhausted [OF le never_accepts [OF ev no], of secondary_return]
  obtain s where bs: "B max_order = Inr (s, ?c)"
    and out: "escalate B secondary_return tol rtol min_order max_order =
      \<lparr>returned = Inr (secondary_return s (Fin ?c) ?e),
       warned = (if max_order > min_order then [AccuracyWarning max_order ?e] else []),
       orders_tried = [min_order..max_order], left_by_break = False\<rparr>"
    by blast
  obtain im1 im2 w1 w2 likes' cqs' where s: "s = (im1, im2, w1, w2, likes', cqs')" by (cases s)
  from bs s have b': "secondary_body rl a b c d lfj cf max_order
      = Inr ((im1, im2, w1, w2, likes', cqs'), ?c)"
    by (simp add: B_def)
  from b' obtain pts1 pts1_w ww wwl wwlc where rl: "rl max_order = Inr (pts1, pts1_w)"
    and i1: "im1 = ravel (fst (meshgrid (map (\<lambda>p. (b - a) * (p + 1) / 2 + a) pts1)
                               (map (\<lambda>p. (d - c) * (p + 1) / 2 + c) pts1)))"
    and i2: "im2 = ravel (snd (meshgrid (map (\<lambda>p. (b - a) * (p + 1) / 2 + a) pts1)
                               (map (\<lambda>p. (d - c) * (p + 1) / 2 + c) pts1)))"
    and v1: "w1 = ravel (fst (meshgrid (map (\<lambda>wi. (b - a) / 2 * wi) pts1_w)
                               (map (\<lambda>wi. (d - c) / 2 * wi) pts1_w)))"
    and v2: "w2 = ravel (snd (meshgrid (map (\<lambda>wi. (b - a) / 2 * wi) pts1_w)
                               (map (\<lambda>wi. (d - c) / 2 * wi) pts1_w)))"
    and cq: "cf (Array im2) = Inr cqs'" and lk: "lfj (Array im1) (Array im2) = Inr likes'"
    and m1: "np_multiply (Array w1) (Array w2) = Inr ww" and m2: "np_multiply ww likes' = Inr wwl"
    and m3: "np_multiply wwl cqs' = Inr wwlc" and sm: "np_sum wwlc = Inr ?c"
    by (rule secondary_body_fullE)
  have len: "length w2 = length w1"
    unfolding v1 v2 by (simp add: length_ravel_meshgrid)
  let ?r = "secondary_return s (Fin ?c) ?e"
  have sel: "im_s ?r = zip im1 im2" "scaler_s ?r = zip w1 w2" "likes_s ?r = likes'"
    "cqs_s ?r = cqs'" "val_s ?r = Fin ?c" "err_s ?r = ?e"
    using s by (simp_all add: secondary_return_def)
  have G: "generate_secondary_event rl a b c d (Some lfj) vl (Some cf) vc tol rtol min_order max_order
           = escalate B secondary_return tol rtol min_order max_order"
    by (simp add: generate_secondary_event_escalate B_def)
  have f: "one_per_point (length w1) likes' \<and> one_per_point (length w1) cqs'
           \<longrightarrow> ?c = (\<Sum>i<length w1. w1 ! i * w2 ! i * sample likes' i * sample cqs' i)"
    using grid_weighted_sum [OF m1 len m2 m3 sm] by blast
  show ?thesis
  proof (rule exI [of _ ?r], rule exI [of _ pts1], rule exI [of _ pts1_w], rule exI [of _ im1],
      rule exI [of _ im2], rule exI [of _ w1], rule exI [of _ w2], intro conjI)
    show "rl max_order = Inr (pts1, pts1_w)" by (rule rl)
    show "im1 = ravel (fst (meshgrid (map (\<lambda>p. (b - a) * (p + 1) / 2 + a) pts1)
                               (map (\<lambda>p. (d - c) * (p + 1) / 2 + c) pts1)))" by (rule i1)
    show "im2 = ravel (snd (meshgrid (map (\<lambda>p. (b - a) * (p + 1) / 2 + a) pts1)
                               (map (\<lambda>p. (d - c) * (p + 1) / 2 + c) pts1)))" by (rule i2)
    show "w1 = ravel (fst (meshgrid (map (\<lambda>wi. (b - a) / 2 * wi) pts1_w)
                               (map (\<lambda>wi. (d - c) / 2 * wi) pts1_w)))" by (rule v1)
    show "w2 = ravel (snd (meshgrid (map (\<lambda>wi. (b - a) / 2 * wi) pts1_w)
                               (map (\<lambda>wi. (d - c) / 2 * wi) pts1_w)))" by (rule v2)
    show "im_s ?r = zip im1 im2" by (rule sel)
    show "scaler_s ?r = zip w1 w2" by (rule sel)
    show "cf (Array im2) = Inr (cqs_s ?r)" unfolding sel by (rule cq)
    show "lfj (Array im1) (Array im2) = Inr (likes_s ?r)" unfolding sel by (rule lk)
    show "val_s ?r = Fin ?c" by (rule sel)
    show "generate_secondary_event rl a b c d (Some lfj) vl (Some cf) vc tol rtol min_order max_order
             = \<lparr>returned = Inr ?r,
                warned = (if max_order > min_order then [AccuracyWarning max_order (err_s ?r)] else []),
                orders_tried = [min_order..max_order], left_by_break = False\<rparr>"
      unfolding G out sel ..
    show "B max_order = Inr ((im1, im2, w1, w2, likes_s ?r, cqs_s ?r), ?c)"
      unfolding sel using bs s by simp
    show "err_s ?r = (if max_order = min_order then PInf
                      else Fin \<bar>?c - candidate B (max_order - 1)\<bar>)"
      unfolding sel by (rule err_at_unfold)
    show "one_per_point (length w1) (likes_s ?r) \<and> one_per_point (length w1) (cqs_s ?r)
              \<longrightarrow> val_s ?r = Fin (\<Sum>i<length w1.
                                    w1 ! i * w2 ! i * sample (likes_s ?r) i * sample (cqs_s ?r) i)"
      unfolding sel using f by simp
  qed
qed


lemma int_2: "(1::int) < n \<and> n \<le> 2 \<Longrightarrow> n = 2"
  by arith

text \<open>
  C9.  In a call of either engine the body of the order-escalation loop is entered for an
  initial segment of \<open>range(min_order, max_order+1)\<close>, hence at most
  \<open>max_order - min_order + 1\<close> times.  The loop is a structural recursion over that
  range and both engines are total functions: given that the quadrature rule and the
  caller's functions return, so does the call.
\<close>

theorem escalation_loop_bounded:
  "(\<exists>m\<le>nat (max_order - min_order + 1).
      orders_tried (generate_primary_event rl a b likelihood_func vec_likelihood
        consequence_func vec_consequence tol rtol min_order max_order) = take m [min_order..max_order])
   \<and> (\<exists>m\<le>nat (max_order - min_order + 1).
      orders_tried (generate_secondary_event rl a b c d likelihood_func2 vec_likelihood
        consequence_func vec_consequence tol rtol min_order max_order) = take m [min_order..max_order])"
proof
  show "\<exists>m\<le>nat (max_order - min_order + 1).
      orders_tried (generate_primary_event rl a b likelihood_func vec_likelihood
        consequence_func vec_consequence tol rtol min_order max_order) = take m [min_order..max_order]"
  proof (cases likelihood_func)
    case None
    then show ?thesis by (intro exI [of _ 0]) (simp add: generate_primary_event_def raises_def)
  next
    case lf: (Some lf)
    show ?thesis
    proof (cases consequence_func)
      case None
      with lf show ?thesis by (intro exI [of _ 0]) (simp add: generate_primary_event_def raises_def)
    next
      case (Some cf)
      with lf show ?thesis
        using escalate_orders_tried by (simp add: generate_primary_event_escalate)
    qed
  qed
  show "\<exists>m\<le>nat (max_order - min_order + 1).
      orders_tried (generate_secondary_event rl a b c d likelihood_func2 vec_likelihood
        consequence_func vec_consequence tol rtol min_order max_order) = take m [min_order..max_order]"
  proof (cases likelihood_func2)
    case None
    then show ?thesis by (intro exI [of _ 0]) (simp add: generate_secondary_event_def raises_def)
  next
    case lf: (Some lf)
    show ?thesis
    proof (cases consequence_func)
      case None
      with lf show ?thesis by (intro exI [of _ 0]) (simp add: generate_secondary_event_def raises_def)
    next
      case (Some cf)
      with lf show ?thesis
        using escalate_orders_tried by (simp add: generate_secondary_event_escalate)
    qed
  qed
qed

text \<open>
  C10, as amended.  With both functions supplied: when \<open>max_order < min_order\<close> the body is
  never entered, no warning is emitted, and the return statement of either engine raises
  \<open>UnboundLocalError\<close>.  When \<open>min_order \<le> max_order\<close> the return statement finds its
  names assigned: the call returns its tuple unless an exception raised inside the loop
  body (by the quadrature rule, a caller's function or a NumPy operation) propagates, and
  it returns whenever the body evaluates at every order of the range.
\<close>

theorem return_names_bound_iff_range_nonempty:
  "(max_order < min_order \<longrightarrow>
      generate_primary_event rl a b (Some lf) vl (Some cf) vc tol rtol min_order max_order
        = \<lparr>returned = Inl UnboundLocalError, warned = [], orders_tried = [], left_by_break = False\<rparr>
    \<and> generate_secondary_event rl a b c d (Some lfj) vl (Some cf) vc tol rtol min_order max_order
        = \<lparr>returned = Inl UnboundLocalError, warned = [], orders_tried = [], left_by_break = False\<rparr>)
   \<and> (min_order \<le> max_order \<longrightarrow>
        ((\<exists>r. returned (generate_primary_event rl a b (Some lf) vl (Some cf) vc tol rtol
                  min_order max_order) = Inr r)
         \<or> (\<exists>k e. min_order \<le> k \<and> k \<le> max_order
               \<and> primary_body rl a b (adapter vl lf) (adapter vc cf) k = Inl e
               \<and> returned (generate_primary_event rl a b (Some lf) vl (Some cf) vc tol rtol
                    min_order max_order) = Inl e))
      \<and> ((\<exists>r. returned (generate_secondary_event rl a b c d (Some lfj) vl (Some cf) vc tol rtol
                  min_order max_order) = Inr r)
         \<or> (\<exists>k e. min_order \<le> k \<and> k \<le> max_order
               \<and> secondary_body rl a b c d lfj cf k = Inl e
               \<and> returned (generate_secondary_event rl a b c d (Some lfj) vl (Some cf) vc tol rtol
                    min_order max_order) = Inl e)))
   \<and> (min_order \<le> max_order
        \<and> (\<forall>k. min_order \<le> k \<and> k \<le> max_order \<longrightarrow>
              assigned (primary_body rl a b (adapter vl lf) (adapter vc cf)) k \<noteq> None)
      \<longrightarrow> (\<exists>r. returned (generate_primary_event rl a b (Some lf) vl (Some cf) vc tol rtol
                  min_order max_order) = Inr r))
   \<and> (min_order \<le> max_order
        \<and> (\<forall>k. min_order \<le> k \<and> k \<le> max_order \<longrightarrow>
              assigned (secondary_body rl a b c d lfj cf) k \<noteq> None)
      \<longrightarrow> (\<exists>r. returned (generate_secondary_event rl a b c d (Some lfj) vl (Some cf) vc tol rtol
                  min_order max_order) = Inr r))"
proof -
  let ?B1 = "primary_body rl a b (adapter vl lf) (adapter vc cf)"
  let ?B2 = "secondary_body rl a b c d lfj cf"
  note e1 = escalate_empty [of max_order min_order ?B1 primary_return tol rtol]
  note e2 = escalate_empty [of max_order min_order ?B2 secondary_return tol rtol]
  note p1 = escalate_returns_or_propagates [of min_order max_order ?B1 primary_return tol rtol]
  note p2 = escalate_returns_or_propagates [of min_order max_order ?B2 secondary_return tol rtol]
  note r1 = escalate_returns [of min_order max_order ?B1 primary_return tol rtol]
  note r2 = escalate_returns [of min_order max_order ?B2 secondary_return tol rtol]
  show ?thesis
    unfolding generate_primary_event_escalate generate_secondary_event_escalate
    using e1 e2 p1 p2 r1 r2 by (intro conjI impI) blast+
qed

lemma return_names_hyp1:
  "\<forall>k::int. 1 \<le> k \<and> k \<le> 2 \<longrightarrow>
     assigned (primary_body gauss_legendre_table 0 1 (adapter False const_one)
                 (adapter False identity_fn)) k \<noteq> None"
proof (intro allI impI)
  fix k :: int assume "1 \<le> k \<and> k \<le> 2"
  then have "k = 1 \<or> k = 2" by (rule int_1_2)
  then show "assigned (primary_body gauss_legendre_table 0 1 (adapter False const_one)
                 (adapter False identity_fn)) k \<noteq> None"
    by (auto simp: assigned_def eval_defs)
qed

lemma return_names_hyp2:
  "\<forall>k::int. 1 \<le> k \<and> k \<le> 2 \<longrightarrow>
     assigned (secondary_body gauss_legendre_table 0 1 0 1 const_one2 identity_fn) k \<noteq> None"
proof (intro allI impI)
  fix k :: int assume "1 \<le> k \<and> k \<le> 2"
  then have "k = 1 \<or> k = 2" by (rule int_1_2)
  then show "assigned (secondary_body gauss_legendre_table 0 1 0 1 const_one2 identity_fn) k \<noteq> None"
    by (auto simp: assigned_def eval_defs)
qed

theorem return_names_bound_iff_range_nonempty_witness:
  "(1::int) < 2
   \<and> generate_primary_event gauss_legendre_table 0 1 (Some const_one) False (Some identity_fn) False
        (1 / 10 ^ 8) (1 / 10 ^ 8) 2 1
       = \<lparr>returned = Inl UnboundLocalError, warned = [], orders_tried = [], left_by_break = False\<rparr>
   \<and> generate_secondary_event gauss_legendre_table 0 1 0 1 (Some const_one2) False (Some identity_fn) False
        (1 / 10 ^ 8) (1 / 10 ^ 8) 2 1
       = \<lparr>returned = Inl UnboundLocalError, warned = [], orders_tried = [], left_by_break = False\<rparr>
   \<and> (1::int) \<le> 2
   \<and> (\<exists>r. returned (generate_primary_event gauss_legendre_table 0 1 (Some const_one) False
                (Some identity_fn) False (1 / 10 ^ 8) (1 / 10 ^ 8) 1 2) = Inr r)
   \<and> (\<exists>r. returned (generate_secondary_event gauss_legendre_table 0 1 0 1 (Some const_one2) False
                (Some identity_fn) False (1 / 10 ^ 8) (1 / 10 ^ 8) 1 2) = Inr r)"
proof -
  let ?tol = "1 / 10 ^ 8 :: real"
  note empty = return_names_bound_iff_range_nonempty [where rl = gauss_legendre_table
      and a = 0 and b = 1 and c = 0 and d = 1 and lf = const_one and vl = False
      and cf = identity_fn and vc = False and lfj = const_one2 and tol = ?tol and rtol = ?tol
      and min_order = 2 and max_order = 1, THEN conjunct1]
  note full = return_names_bound_iff_range_nonempty [where rl = gauss_legendre_table
      and a = 0 and b = 1 and c = 0 and d = 1 and lf = const_one and vl = False
      and cf = identity_fn and vc = False and lfj = const_one2 and tol = ?tol and rtol = ?tol
      and min_order = 1 and max_order = 2, THEN conjunct2, THEN conjunct2]
  have lt: "(1::int) < 2" and le: "(1::int) \<le> 2" by simp_all
  from empty lt
  have e: "generate_primary_event gauss_legendre_table 0 1 (Some const_one) False (Some identity_fn) False
        ?tol ?tol 2 1
       = \<lparr>returned = Inl UnboundLocalError, warned = [], orders_tried = [], left_by_break = False\<rparr>
   \<and> generate_secondary_event gauss_legendre_table 0 1 0 1 (Some const_one2) False (Some identity_fn) False
        ?tol ?tol 2 1
       = \<lparr>returned = Inl UnboundLocalError, warned = [], orders_tried = [], left_by_break = False\<rparr>"
    by blast
  from full [THEN conjunct1] le return_names_hyp1
  have p: "\<exists>r. returned (generate_primary_event gauss_legendre_table 0 1 (Some const_one) False
                (Some identity_fn) False ?tol ?tol 1 2) = Inr r"
    by blast
  from full [THEN conjunct2] le return_names_hyp2
  have q: "\<exists>r. returned (generate_secondary_event gauss_legendre_table 0 1 0 1 (Some const_one2) False
                (Some identity_fn) False ?tol ?tol 1 2) = Inr r"
    by blast
  from lt le e p q show ?thesis by blast
qed

text \<open>
  C7.  \<open>generate_primary_event(0, 1, likelihood_func = lambda im: 1.0, consequence_func =
  lambda im: im, min_order=1, max_order=5)\<close> with the default tolerances \<open>1e-8\<close> and the
  default flags, for a rule whose first two orders are the 1-point and the 2-point
  Gauss-Legendre rules: the call returns the risk \<open>1/2\<close> (so within \<open>1e-10\<close> of 0.5), with
  error 0 and no warning, after the orders 1 and 2, leaving the loop by \<open>break\<close> at order 2.
\<close>

theorem linear_integrand_scenario:
  assumes "rl 1 = Inr ([0], [2])"
    and "rl 2 = Inr ([- (1 / sqrt 3), 1 / sqrt 3], [1, 1])"
  shows "\<exists>r v. generate_primary_event rl 0 1 (Some const_one) False (Some identity_fn) False
                 (1 / 10 ^ 8) (1 / 10 ^ 8) 1 5
               = \<lparr>returned = Inr r, warned = [], orders_tried = [1, 2], left_by_break = True\<rparr>
             \<and> val r = Fin v \<and> v = 1 / 2 \<and> \<bar>v - 1 / 2\<bar> \<le> 1 / 10 ^ 10
             \<and> err r = Fin 0
             \<and> last (orders_tried (generate_primary_event rl 0 1 (Some const_one) False
                   (Some identity_fn) False (1 / 10 ^ 8) (1 / 10 ^ 8) 1 5)) \<le> 2"
proof -
  let ?G = "generate_primary_event rl 0 1 (Some const_one) False (Some identity_fn) False
              (1 / 10 ^ 8) (1 / 10 ^ 8) 1 5"
  have "\<exists>r. ?G = \<lparr>returned = Inr r, warned = [], orders_tried = [1, 2], left_by_break = True\<rparr>
            \<and> val r = Fin (1 / 2) \<and> err r = Fin 0"
    using assms
    by (simp add: generate_primary_event_def escalate_def primary_body_def primary_return_def
        adapter_def np_vectorize_def and_then_def stop_test_def const_one_def identity_fn_def
        Let_def upto_rec1 field_simps)
  then obtain r
    where G: "?G = \<lparr>returned = Inr r, warned = [], orders_tried = [1, 2], left_by_break = True\<rparr>"
      and v: "val r = Fin (1 / 2)" and e: "err r = Fin 0"
    by blast
  have "last (orders_tried ?G) \<le> 2" by (simp only: G) simp
  with G v e show ?thesis
    by (intro exI [of _ r] exI [of _ "1 / 2"]) simp
qed

theorem linear_integrand_scenario_witness:
  "gauss_legendre_table 1 = Inr ([0], [2])
   \<and> gauss_legendre_table 2 = Inr ([- (1 / sqrt 3), 1 / sqrt 3], [1, 1])
   \<and> (\<exists>r. returned (generate_primary_event gauss_legendre_table 0 1 (Some const_one) False
              (Some identity_fn) False (1 / 10 ^ 8) (1 / 10 ^ 8) 1 5) = Inr r
         \<and> val r = Fin (1 / 2))
   \<and> orders_tried (generate_primary_event gauss_legendre_table 0 1 (Some const_one) False
              (Some identity_fn) False (1 / 10 ^ 8) (1 / 10 ^ 8) 1 5) = [1, 2]"
proof -
  have h1: "gauss_legendre_table 1 = Inr ([0], [2])"
    and h2: "gauss_legendre_table 2 = Inr ([- (1 / sqrt 3), 1 / sqrt 3], [1, 1])"
    by (simp_all add: gauss_legendre_table_def)
  from linear_integrand_scenario [OF h1 h2]
  obtain r v where "generate_primary_event gauss_legendre_table 0 1 (Some const_one) False
         (Some identity_fn) False (1 / 10 ^ 8) (1 / 10 ^ 8) 1 5
       = \<lparr>returned = Inr r, warned = [], orders_tried = [1, 2], left_by_break = True\<rparr>"
    "val r = Fin v" "v = 1 / 2"
    by blast
  then have "returned (generate_primary_event gauss_legendre_table 0 1 (Some const_one) False
         (Some identity_fn) False (1 / 10 ^ 8) (1 / 10 ^ 8) 1 5) = Inr r \<and> val r = Fin (1 / 2)"
    "orders_tried (generate_primary_event gauss_legendre_table 0 1 (Some const_one) False
              (Some identity_fn) False (1 / 10 ^ 8) (1 / 10 ^ 8) 1 5) = [1, 2]"
    by simp_all
  with h1 h2 show ?thesis by blast
qed

text \<open>
  C4.  \<open>generate_secondary_event\<close> does not honor \<open>vec_consequence=False\<close>: with the
  float-only consequence function \<open>lambda im: 1.0 if im > 0.5 else 0.0\<close> the call raises
  at its first order, because the function receives the whole raveled grid.  The adapter
  applied to that function evaluates it element by element, and
  \<open>generate_primary_event\<close>, which calls through the adapter, returns for the same
  function, flags and orders.
\<close>

theorem secondary_event_bypasses_adapter:
  "generate_secondary_event gauss_legendre_table 0 1 0 1 (Some const_one2) False (Some step_fn) False
     (1 / 10 ^ 8) (1 / 10 ^ 8) 2 3
   = \<lparr>returned = Inl ValueError, warned = [], orders_tried = [2], left_by_break = False\<rparr>
   \<and> adapter False step_fn (Array [0, 1, 0, 1]) = Inr (Array [0, 1, 0, 1])
   \<and> (\<exists>r. returned (generate_primary_event gauss_legendre_table 0 1 (Some const_one) False
              (Some step_fn) False (1 / 10 ^ 8) (1 / 10 ^ 8) 2 3) = Inr r)"
  by (simp add: eval_defs field_simps)

text \<open>
  C10, as stated, fails: with \<open>min_order \<le> max_order\<close> and both functions supplied a call
  need not return.  An exception of a caller's function propagates out of
  \<open>generate_primary_event\<close> (here \<^verbatim>\<open>math.sqrt\<close> of a negative number, at order 1 of the
  range 1 to 2), and \<open>generate_secondary_event\<close> raises at order 2 of the range 2 to 3.
\<close>

theorem call_in_range_raises_counterexample:
  "(1::int) \<le> 2
   \<and> generate_primary_event gauss_legendre_table 0 1 (Some const_one) False (Some sqrt_shifted) False
        (1 / 10 ^ 8) (1 / 10 ^ 8) 1 2
       = \<lparr>returned = Inl ValueError, warned = [], orders_tried = [1], left_by_break = False\<rparr>
   \<and> (2::int) \<le> 3
   \<and> generate_secondary_event gauss_legendre_table 0 1 0 1 (Some const_one2) False (Some step_fn) False
        (1 / 10 ^ 8) (1 / 10 ^ 8) 2 3
       = \<lparr>returned = Inl ValueError, warned = [], orders_tried = [2], left_by_break = False\<rparr>"
  by (simp add: eval_defs sqrt_shifted_def)

text \<open>
  C6.  Take a call of either engine with \<open>min_order \<le> max_order\<close> in which the body
  evaluates at every order of the range and the stopping test \<open>err < tol or err < rtol *
  |val|\<close> holds at none of them.  The call raises nothing and returns the estimate
  computed at \<open>max_order\<close>, all six components of it: the sample points and the rescaled
  weights of the rule of order \<open>max_order\<close> (for the secondary engine the pairs over the
  raveled grid), the likelihoods and the consequences sampled there, \<open>val\<close> the candidate
  of order \<open>max_order\<close>, that is the sum of weight times likelihood times consequence, and
  \<open>err\<close> its distance to the candidate of the order before (\<open>+\<infinity>\<close> when there is none).
  The call has tried every order and left the loop without \<open>break\<close>; when \<open>max_order >
  min_order\<close> it has emitted one accuracy warning, which carries \<open>max_order\<close> and that
  final \<open>err\<close>, and none when the two orders are equal.
\<close>

theorem max_order_reached_warns:
  fixes rl :: rule and a b c d :: real and lf cf :: pyfun and lfj :: pyfun2 and vl vc :: bool
  defines "B1 \<equiv> primary_body rl a b (adapter vl lf) (adapter vc cf)"
    and "B2 \<equiv> secondary_body rl a b c d lfj cf"
  shows "(min_order \<le> max_order
      \<and> (\<forall>n. min_order \<le> n \<and> n \<le> max_order \<longrightarrow> assigned B1 n \<noteq> None)
      \<and> (\<forall>n. min_order < n \<and> n \<le> max_order \<longrightarrow>
             \<not> (\<bar>candidate B1 n - candidate B1 (n - 1)\<bar> < tol
                \<or> \<bar>candidate B1 n - candidate B1 (n - 1)\<bar> < rtol * \<bar>candidate B1 n\<bar>))
     \<longrightarrow> (\<exists>r x w.
               generate_primary_event rl a b (Some lf) vl (Some cf) vc tol rtol min_order max_order
                 = \<lparr>returned = Inr r,
                    warned = (if max_order > min_order then [AccuracyWarning max_order (err r)] else []),
                    orders_tried = [min_order..max_order], left_by_break = False\<rparr>
               \<and> rl max_order = Inr (x, w)
               \<and> ims r = map (\<lambda>xi. (b - a) * (xi + 1) / 2 + a) x
               \<and> scalers r = map (\<lambda>wi. (b - a) / 2 * wi) w
               \<and> adapter vl lf (Array (ims r)) = Inr (likes r)
               \<and> adapter vc cf (Array (ims r)) = Inr (cqs r)
               \<and> B1 max_order = Inr ((ims r, scalers r, likes r, cqs r), candidate B1 max_order)
               \<and> val r = Fin (candidate B1 max_order)
               \<and> err r = (if max_order = min_order then PInf
                          else Fin \<bar>candidate B1 max_order - candidate B1 (max_order - 1)\<bar>)
               \<and> (one_per_point (length (scalers r)) (likes r)
                    \<and> one_per_point (length (scalers r)) (cqs r)
                  \<longrightarrow> val r = Fin (\<Sum>i<length (scalers r).
                                      scalers r ! i * sample (likes r) i * sample (cqs r) i))))
   \<and> (min_order \<le> max_order
      \<and> (\<forall>n. min_order \<le> n \<and> n \<le> max_order \<longrightarrow> assigned B2 n \<noteq> None)
      \<and> (\<forall>n. min_order < n \<and> n \<le> max_order \<longrightarrow>
             \<not> (\<bar>candidate B2 n - candidate B2 (n - 1)\<bar> < tol
                \<or> \<bar>candidate B2 n - candidate B2 (n - 1)\<bar> < rtol * \<bar>candidate B2 n\<bar>))
     \<longrightarrow> (\<exists>r pts1 pts1_w im1 im2 w1 w2.
               generate_secondary_event rl a b c d (Some lfj) vl (Some cf) vc tol rtol min_order max_order
                 = \<lparr>returned = Inr r,
                    warned = (if max_order > min_order then [AccuracyWarning max_order (err_s r)] else []),
                    orders_tried = [min_order..max_order], left_by_break = False\<rparr>
               \<and> rl max_order = Inr (pts1, pts1_w)
               \<and> im1 = ravel (fst (meshgrid (map (\<lambda>p. (b - a) * (p + 1) / 2 + a) pts1)
                                            (map (\<lambda>p. (d - c) * (p + 1) / 2 + c) pts1)))
               \<and> im2 = ravel (snd (meshgrid (map (\<lambda>p. (b - a) * (p + 1) / 2 + a) pts1)
                                            (map (\<lambda>p. (d - c) * (p + 1) / 2 + c) pts1)))
               \<and> w1 = ravel (fst (meshgrid (map (\<lambda>wi. (b - a) / 2 * wi) pts1_w)
                                           (map (\<lambda>wi. (d - c) / 2 * wi) pts1_w)))
               \<and> w2 = ravel (snd (meshgrid (map (\<lambda>wi. (b - a) / 2 * wi) pts1_w)
                                           (map (\<lambda>wi. (d - c) / 2 * wi) pts1_w)))
               \<and> im_s r = zip im1 im2
               \<and> scaler_s r = zip w1 w2
               \<and> cf (Array im2) = Inr (cqs_s r)
               \<and> lfj (Array im1) (Array im2) = Inr (likes_s r)
               \<and> B2 max_order = Inr ((im1, im2, w1, w2, likes_s r, cqs_s r), candidate B2 max_order)
               \<and> val_s r = Fin (candidate B2 max_order)
               \<and> err_s r = (if max_order = min_order then PInf
                            else Fin \<bar>candidate B2 max_order - candidate B2 (max_order - 1)\<bar>)
               \<and> (one_per_point (length w1) (likes_s r) \<and> one_per_point (length w1) (cqs_s r)
                  \<longrightarrow> val_s r = Fin (\<Sum>i<length w1.
                                        w1 ! i * w2 ! i * sample (likes_s r) i * sample (cqs_s r) i))))"
proof (intro conjI impI)
  assume "min_order \<le> max_order
      \<and> (\<forall>n. min_order \<le> n \<and> n \<le> max_order \<longrightarrow> assigned B1 n \<noteq> None)
      \<and> (\<forall>n. min_order < n \<and> n \<le> max_order \<longrightarrow>
             \<not> (\<bar>candidate B1 n - candidate B1 (n - 1)\<bar> < tol
                \<or> \<bar>candidate B1 n - candidate B1 (n - 1)\<bar> < rtol * \<bar>candidate B1 n\<bar>))"
  then show "\<exists>r x w.
           generate_primary_event rl a b (Some lf) vl (Some cf) vc tol rtol min_order max_order
             = \<lparr>returned = Inr r,
                warned = (if max_order > min_order then [AccuracyWarning max_order (err r)] else []),
                orders_tried = [min_order..max_order], left_by_break = False\<rparr>
           \<and> rl max_order = Inr (x, w)
           \<and> ims r = map (\<lambda>xi. (b - a) * (xi + 1) / 2 + a) x
           \<and> scalers r = map (\<lambda>wi. (b - a) / 2 * wi) w
           \<and> adapter vl lf (Array (ims r)) = Inr (likes r)
           \<and> adapter vc cf (Array (ims r)) = Inr (cqs r)
           \<and> B1 max_order = Inr ((ims r, scalers r, likes r, cqs r), candidate B1 max_order)
           \<and> val r = Fin (candidate B1 max_order)
           \<and> err r = (if max_order = min_order then PInf
                      else Fin \<bar>candidate B1 max_order - candidate B1 (max_order - 1)\<bar>)
           \<and> (one_per_point (length (scalers r)) (likes r)
                \<and> one_per_point (length (scalers r)) (cqs r)
              \<longrightarrow> val r = Fin (\<Sum>i<length (scalers r).
                                  scalers r ! i * sample (likes r) i * sample (cqs r) i))"
    unfolding B1_def
    using primary_exhausted [of min_order max_order rl a b vl lf vc cf tol rtol] by blast
next
  assume "min_order \<le> max_order
      \<and> (\<forall>n. min_order \<le> n \<and> n \<le> max_order \<longrightarrow> assigned B2 n \<noteq> None)
      \<and> (\<forall>n. min_order < n \<and> n \<le> max_order \<longrightarrow>
             \<not> (\<bar>candidate B2 n - candidate B2 (n - 1)\<bar> < tol
                \<or> \<bar>candidate B2 n - candidate B2 (n - 1)\<bar> < rtol * \<bar>candidate B2 n\<bar>))"
  then show "\<exists>r pts1 pts1_w im1 im2 w1 w2.
           generate_secondary_event rl a b c d (Some lfj) vl (Some cf) vc tol rtol min_order max_order
             = \<lparr>returned = Inr r,
                warned = (if max_order > min_order then [AccuracyWarning max_order (err_s r)] else []),
                orders_tried = [min_order..max_order], left_by_break = False\<rparr>
           \<and> rl max_order = Inr (pts1, pts1_w)
           \<and> im1 = ravel (fst (meshgrid (map (\<lambda>p. (b - a) * (p + 1) / 2 + a) pts1)
                                        (map (\<lambda>p. (d - c) * (p + 1) / 2 + c) pts1)))
           \<and> im2 = ravel (snd (meshgrid (map (\<lambda>p. (b - a) * (p + 1) / 2 + a) pts1)
                                        (map (\<lambda>p. (d - c) * (p + 1) / 2 + c) pts1)))
           \<and> w1 = ravel (fst (meshgrid (map (\<lambda>wi. (b - a) / 2 * wi) pts1_w)
                                       (map (\<lambda>wi. (d - c) / 2 * wi) pts1_w)))
           \<and> w2 = ravel (snd (meshgrid (map (\<lambda>wi. (b - a) / 2 * wi) pts1_w)
                                       (map (\<lambda>wi. (d - c) / 2 * wi) pts1_w)))
           \<and> im_s r = zip im1 im2
           \<and> scaler_s r = zip w1 w2
           \<and> cf (Array im2) = Inr (cqs_s r)
           \<and> lfj (Array im1) (Array im2) = Inr (likes_s r)
           \<and> B2 max_order = Inr ((im1, im2, w1, w2, likes_s r, cqs_s r), candidate B2 max_order)
           \<and> val_s r = Fin (candidate B2 max_order)
           \<and> err_s r = (if max_order = min_order then PInf
                        else Fin \<bar>candidate B2 max_order - candidate B2 (max_order - 1)\<bar>)
           \<and> (one_per_point (length w1) (likes_s r) \<and> one_per_point (length w1) (cqs_s r)
              \<longrightarrow> val_s r = Fin (\<Sum>i<length w1.
                                    w1 ! i * w2 ! i * sample (likes_s r) i * sample (cqs_s r) i))"
    unfolding B2_def
    using secondary_exhausted [of min_order max_order rl a b c d lfj cf tol rtol vl vc] by blast
qed

lemma max_order_reached_hyp1:
  "(1::int) \<le> 2
   \<and> (\<forall>n::int. 1 \<le> n \<and> n \<le> 2 \<longrightarrow>
         assigned (primary_body gauss_legendre_table 0 1 (adapter False const_one)
                     (adapter False step_fn)) n \<noteq> None)
   \<and> (\<forall>n::int. 1 < n \<and> n \<le> 2 \<longrightarrow>
         \<not> (\<bar>candidate (primary_body gauss_legendre_table 0 1 (adapter False const_one)
                           (adapter False step_fn)) n
               - candidate (primary_body gauss_legendre_table 0 1 (adapter False const_one)
                           (adapter False step_fn)) (n - 1)\<bar> < 1 / 10 ^ 8
            \<or> \<bar>candidate (primary_body gauss_legendre_table 0 1 (adapter False const_one)
                           (adapter False step_fn)) n
               - candidate (primary_body gauss_legendre_table 0 1 (adapter False const_one)
                           (adapter False step_fn)) (n - 1)\<bar>
              < 1 / 10 ^ 8 * \<bar>candidate (primary_body gauss_legendre_table 0 1
                           (adapter False const_one) (adapter False step_fn)) n\<bar>))"
proof (intro conjI allI impI)
  fix n :: int assume "1 \<le> n \<and> n \<le> 2"
  then have "n = 1 \<or> n = 2" by (rule int_1_2)
  then show "assigned (primary_body gauss_legendre_table 0 1 (adapter False const_one)
                     (adapter False step_fn)) n \<noteq> None"
    by (auto simp: assigned_def eval_defs field_simps)
next
  fix n :: int assume "1 < n \<and> n \<le> 2"
  then have n: "n = 2" by (rule int_2)
  show "\<not> (\<bar>candidate (primary_body gauss_legendre_table 0 1 (adapter False const_one)
                           (adapter False step_fn)) n
               - candidate (primary_body gauss_legendre_table 0 1 (adapter False const_one)
                           (adapter False step_fn)) (n - 1)\<bar> < 1 / 10 ^ 8
            \<or> \<bar>candidate (primary_body gauss_legendre_table 0 1 (adapter False const_one)
                           (adapter False step_fn)) n
               - candidate (primary_body gauss_legendre_table 0 1 (adapter False const_one)
                           (adapter False step_fn)) (n - 1)\<bar>
              < 1 / 10 ^ 8 * \<bar>candidate (primary_body gauss_legendre_table 0 1
                           (adapter False const_one) (adapter False step_fn)) n\<bar>)"
    unfolding n by (simp add: candidate_def eval_defs field_simps)
qed simp

lemma max_order_reached_hyp2:
  "(1::int) \<le> 2
   \<and> (\<forall>n::int. 1 \<le> n \<and> n \<le> 2 \<longrightarrow>
         assigned (secondary_body gauss_legendre_table 0 1 0 1 const_one2 square_fn) n \<noteq> None)
   \<and> (\<forall>n::int. 1 < n \<and> n \<le> 2 \<longrightarrow>
         \<not> (\<bar>candidate (secondary_body gauss_legendre_table 0 1 0 1 const_one2 square_fn) n
               - candidate (secondary_body gauss_legendre_table 0 1 0 1 const_one2 square_fn) (n - 1)\<bar>
              < 1 / 10 ^ 8
            \<or> \<bar>candidate (secondary_body gauss_legendre_table 0 1 0 1 const_one2 square_fn) n
               - candidate (secondary_body gauss_legendre_table 0 1 0 1 const_one2 square_fn) (n - 1)\<bar>
              < 1 / 10 ^ 8
                * \<bar>candidate (secondary_body gauss_legendre_table 0 1 0 1 const_one2 square_fn) n\<bar>))"
proof (intro conjI allI impI)
  fix n :: int assume "1 \<le> n \<and> n \<le> 2"
  then have "n = 1 \<or> n = 2" by (rule int_1_2)
  then show "assigned (secondary_body gauss_legendre_table 0 1 0 1 const_one2 square_fn) n \<noteq> None"
    by (auto simp: assigned_def eval_defs field_simps)
next
  fix n :: int assume "1 < n \<and> n \<le> 2"
  then have n: "n = 2" by (rule int_2)
  show "\<not> (\<bar>candidate (secondary_body gauss_legendre_table 0 1 0 1 const_one2 square_fn) n
               - candidate (secondary_body gauss_legendre_table 0 1 0 1 const_one2 square_fn) (n - 1)\<bar>
              < 1 / 10 ^ 8
            \<or> \<bar>candidate (secondary_body gauss_legendre_table 0 1 0 1 const_one2 square_fn) n
               - candidate (secondary_body gauss_legendre_table 0 1 0 1 const_one2 square_fn) (n - 1)\<bar>
              < 1 / 10 ^ 8
                * \<bar>candidate (secondary_body gauss_legendre_table 0 1 0 1 const_one2 square_fn) n\<bar>)"
    unfolding n by (simp add: candidate_def eval_defs field_simps)
qed simp

theorem max_order_reached_warns_witness:
  "(\<exists>r. generate_primary_event gauss_legendre_table 0 1 (Some const_one) False (Some step_fn) False
               (1 / 10 ^ 8) (1 / 10 ^ 8) 1 2
             = \<lparr>returned = Inr r, warned = [AccuracyWarning 2 (Fin (1 / 2))],
                orders_tried = [1, 2], left_by_break = False\<rparr>
           \<and> scalers r = [1 / 2, 1 / 2] \<and> likes r = Array [1, 1] \<and> cqs r = Array [0, 1]
           \<and> val r = Fin (1 / 2) \<and> err r = Fin (1 / 2))
   \<and> (\<exists>r. generate_secondary_event gauss_legendre_table 0 1 0 1 (Some const_one2) False (Some square_fn) False
               (1 / 10 ^ 8) (1 / 10 ^ 8) 1 2
             = \<lparr>returned = Inr r, warned = [AccuracyWarning 2 (Fin (1 / 12))],
                orders_tried = [1, 2], left_by_break = False\<rparr>
           \<and> map (\<lambda>(p, q). p * q) (scaler_s r) = [1 / 4, 1 / 4, 1 / 4, 1 / 4]
           \<and> likes_s r = Scalar 1
           \<and> val_s r = Fin (1 / 3) \<and> err_s r = Fin (1 / 12))"
proof -
  let ?tol = "1 / 10 ^ 8 :: real"
  let ?B1 = "primary_body gauss_legendre_table 0 1 (adapter False const_one) (adapter False step_fn)"
  let ?B2 = "secondary_body gauss_legendre_table 0 1 0 1 const_one2 square_fn"
  note inst1 = max_order_reached_warns [where rl = gauss_legendre_table and a = 0 and b = 1
      and lf = const_one and vl = False and cf = step_fn and vc = False
      and tol = ?tol and rtol = ?tol and min_order = 1 and max_order = 2, THEN conjunct1,
      rule_format, OF max_order_reached_hyp1]
  note inst2 = max_order_reached_warns [where rl = gauss_legendre_table and a = 0 and b = 1
      and c = 0 and d = 1 and vl = False and cf = square_fn and vc = False
      and lfj = const_one2 and tol = ?tol and rtol = ?tol and min_order = 1 and max_order = 2,
      THEN conjunct2, rule_format, OF max_order_reached_hyp2]
  have t2: "gauss_legendre_table 2 = Inr ([- (1 / sqrt 3), 1 / sqrt 3], [1, 1])"
    by (simp add: gauss_legendre_table_def)
  have up: "[1..2] = [1, 2 :: int]" by (simp add: upto_rec1)
  have c1: "candidate ?B1 2 = 1 / 2" "candidate ?B1 1 = 0"
    by (simp_all add: candidate_def eval_defs field_simps)
  have c2: "candidate ?B2 2 = 1 / 3" "candidate ?B2 1 = 1 / 4"
    by (simp_all add: candidate_def eval_defs field_simps)
  from inst1 obtain r x w
    where G: "generate_primary_event gauss_legendre_table 0 1 (Some const_one) False (Some step_fn)
                False ?tol ?tol 1 2
             = \<lparr>returned = Inr r,
                warned = (if (2::int) > 1 then [AccuracyWarning 2 (err r)] else []),
                orders_tried = [1..2], left_by_break = False\<rparr>"
      and rl: "gauss_legendre_table 2 = Inr (x, w)"
      and i: "ims r = map (\<lambda>xi. (1 - 0) * (xi + 1) / 2 + 0) x"
      and sc: "scalers r = map (\<lambda>wi. (1 - 0) / 2 * wi) w"
      and l: "adapter False const_one (Array (ims r)) = Inr (likes r)"
      and cq: "adapter False step_fn (Array (ims r)) = Inr (cqs r)"
      and v: "val r = Fin (candidate ?B1 2)"
      and e: "err r = (if (2::int) = 1 then PInf else Fin \<bar>candidate ?B1 2 - candidate ?B1 (2 - 1)\<bar>)"
    by blast
  from rl t2 have xw: "x = [- (1 / sqrt 3), 1 / sqrt 3]" "w = [1, 1]" by simp_all
  have p: "\<exists>r. generate_primary_event gauss_legendre_table 0 1 (Some const_one) False (Some step_fn) False
               ?tol ?tol 1 2
             = \<lparr>returned = Inr r, warned = [AccuracyWarning 2 (Fin (1 / 2))],
                orders_tried = [1, 2], left_by_break = False\<rparr>
           \<and> scalers r = [1 / 2, 1 / 2] \<and> likes r = Array [1, 1] \<and> cqs r = Array [0, 1]
           \<and> val r = Fin (1 / 2) \<and> err r = Fin (1 / 2)"
  proof (intro exI [of _ r] conjI)
    show "err r = Fin (1 / 2)" using e by (simp add: c1)
    then show "generate_primary_event gauss_legendre_table 0 1 (Some const_one) False (Some step_fn) False
               ?tol ?tol 1 2
             = \<lparr>returned = Inr r, warned = [AccuracyWarning 2 (Fin (1 / 2))],
                orders_tried = [1, 2], left_by_break = False\<rparr>"
      using G by (simp add: up)
    show "scalers r = [1 / 2, 1 / 2]" using sc xw by simp
    show "likes r = Array [1, 1]" using l i xw
      by (simp add: adapter_def np_vectorize_def and_then_def const_one_def)
    show "cqs r = Array [0, 1]" using cq i xw
      by (simp add: adapter_def np_vectorize_def and_then_def step_fn_def field_simps)
    show "val r = Fin (1 / 2)" using v by (simp add: c1)
  qed
  from inst2 obtain r pts1 pts1_w im1 im2 w1 w2
    where G: "generate_secondary_event gauss_legendre_table 0 1 0 1 (Some const_one2) False
                (Some square_fn) False ?tol ?tol 1 2
             = \<lparr>returned = Inr r,
                warned = (if (2::int) > 1 then [AccuracyWarning 2 (err_s r)] else []),
                orders_tried = [1..2], left_by_break = False\<rparr>"
      and rl: "gauss_legendre_table 2 = Inr (pts1, pts1_w)"
      and i1: "im1 = ravel (fst (meshgrid (map (\<lambda>p. (1 - 0) * (p + 1) / 2 + 0) pts1)
                                        (map (\<lambda>p. (1 - 0) * (p + 1) / 2 + 0) pts1)))"
      and i2: "im2 = ravel (snd (meshgrid (map (\<lambda>p. (1 - 0) * (p + 1) / 2 + 0) pts1)
                                        (map (\<lambda>p. (1 - 0) * (p + 1) / 2 + 0) pts1)))"
      and v1: "w1 = ravel (fst (meshgrid (map (\<lambda>wi. (1 - 0) / 2 * wi) pts1_w)
                                       (map (\<lambda>wi. (1 - 0) / 2 * wi) pts1_w)))"
      and v2: "w2 = ravel (snd (meshgrid (map (\<lambda>wi. (1 - 0) / 2 * wi) pts1_w)
                                       (map (\<lambda>wi. (1 - 0) / 2 * wi) pts1_w)))"
      and sc: "scaler_s r = zip w1 w2"
      and l: "const_one2 (Array im1) (Array im2) = Inr (likes_s r)"
      and v: "val_s r = Fin (candidate ?B2 2)"
      and e: "err_s r = (if (2::int) = 1 then PInf else Fin \<bar>candidate ?B2 2 - candidate ?B2 (2 - 1)\<bar>)"
    by blast
  from rl t2 have xw: "pts1 = [- (1 / sqrt 3), 1 / sqrt 3]" "pts1_w = [1, 1]" by simp_all
  have q: "\<exists>r. generate_secondary_event gauss_legendre_table 0 1 0 1 (Some const_one2) False (Some square_fn) False
               ?tol ?tol 1 2
             = \<lparr>returned = Inr r, warned = [AccuracyWarning 2 (Fin (1 / 12))],
                orders_tried = [1, 2], left_by_break = False\<rparr>
           \<and> map (\<lambda>(p, q). p * q) (scaler_s r) = [1 / 4, 1 / 4, 1 / 4, 1 / 4]
           \<and> likes_s r = Scalar 1
           \<and> val_s r = Fin (1 / 3) \<and> err_s r = Fin (1 / 12)"
  proof (intro exI [of _ r] conjI)
    show "err_s r = Fin (1 / 12)" using e by (simp add: c2)
    then show "generate_secondary_event gauss_legendre_table 0 1 0 1 (Some const_one2) False (Some square_fn) False
               ?tol ?tol 1 2
             = \<lparr>returned = Inr r, warned = [AccuracyWarning 2 (Fin (1 / 12))],
                orders_tried = [1, 2], left_by_break = False\<rparr>"
      using G by (simp add: up)
    show "map (\<lambda>(p, q). p * q) (scaler_s r) = [1 / 4, 1 / 4, 1 / 4, 1 / 4]"
      using sc v1 v2 xw by (simp add: meshgrid_def ravel_def)
    show "likes_s r = Scalar 1" using l by (simp add: const_one2_def)
    show "val_s r = Fin (1 / 3)" using v by (simp add: c2)
  qed
  from p q show ?thesis by blast
qed



section \<open>Properties of binary64 rounding\<close>


lemma round_even_of_int [simp]: "round_even (of_int n) = n"
  by (simp add: round_even_def Let_def)

lemma round_even_nonneg: "0 \<le> y \<Longrightarrow> 0 \<le> round_even y"
  by (auto simp: round_even_def Let_def)





lemma ulp64_pos: "0 < ulp64 x"
  by (simp add: ulp64_def)




lemma fl64_nonneg: "0 \<le> x \<Longrightarrow> 0 \<le> fl64 x"
  using ulp64_pos [of x] round_even_nonneg [of "x / ulp64 x"]
  by (simp add: fl64_def)



lemma round_even_numeral [simp]:
  "round_even (numeral n) = numeral n" "round_even (- numeral n) = - numeral n"
  using round_even_of_int [of "numeral n"] round_even_of_int [of "- numeral n"] by simp_all














subsection \<open>The per-state probabilities in binary64\<close>





















subsection \<open>The rescaled weights in binary64\<close>































end
